theory Spec2Isabelle
  imports Complex_Main "HOL-Library.Word" "HOL-Library.AList"
begin

unbundle bit_operations_syntax

section \<open>JavaScript values\<close>

text \<open>
  The values that cross the wire are JSON values. A JavaScript number is modelled as a
  \<open>real\<close>: the code only copies numbers, tests \<open>typeof\<close> and compares them with
  \<open>===\<close>. An object is the list of its own properties in enumeration order.
  \<open>undefined\<close> is \<open>None\<close> of type \<open>json option\<close>.
\<close>

datatype json =
    JNull
  | JBool bool
  | JNum real
  | JStr string
  | JArr "json list"
  | JObj "(string \<times> json) list"

text \<open>Property read \<open>obj.k\<close> on a value that is neither \<open>null\<close> nor \<open>undefined\<close>.\<close>

fun js_get :: "json \<Rightarrow> string \<Rightarrow> json option" where
  "js_get (JObj kvs) k = map_of kvs k"
| "js_get _ k = None"

fun is_string :: "json option \<Rightarrow> bool" where
  "is_string (Some (JStr s)) = True"
| "is_string _ = False"

fun is_number :: "json option \<Rightarrow> bool" where
  "is_number (Some (JNum n)) = True"
| "is_number _ = False"

text \<open>A string used as a condition: \<open>null\<close> and the empty string are falsy.\<close>

fun truthy_str :: "string option \<Rightarrow> bool" where
  "truthy_str None = False"
| "truthy_str (Some s) = (s \<noteq> [])"

section \<open>Typed arrays\<close>

type_synonym byte = "8 word"
type_synonym int32 = "32 word"

text \<open>
  \<open>new Int32Array(words).buffer\<close> and \<open>new Int32Array(buffer)\<close>: four bytes per word,
  least significant byte first. A buffer whose length is not a multiple of four has no
  \<open>Int32Array\<close> view (the constructor throws a RangeError).
\<close>

definition word_bytes :: "int32 \<Rightarrow> byte list" where
  "word_bytes w = [ucast w, ucast (drop_bit 8 w), ucast (drop_bit 16 w), ucast (drop_bit 24 w)]"

definition bytes_word :: "byte \<Rightarrow> byte \<Rightarrow> byte \<Rightarrow> byte \<Rightarrow> int32" where
  "bytes_word a b c d =
     ucast a OR push_bit 8 (ucast b) OR push_bit 16 (ucast c) OR push_bit 24 (ucast d)"

definition Int32Array_buffer :: "int32 list \<Rightarrow> byte list" where
  "Int32Array_buffer ws = concat (map word_bytes ws)"

fun Int32Array_of :: "byte list \<Rightarrow> int32 list option" where
  "Int32Array_of [] = Some []"
| "Int32Array_of (a # b # c # d # bs) =
     (case Int32Array_of bs of None \<Rightarrow> None | Some ws \<Rightarrow> Some (bytes_word a b c d # ws))"
| "Int32Array_of _ = None"

section \<open>The library the codec calls\<close>

text \<open>
  \<open>JSON\<close>, \<open>CryptoJS\<close> and \<open>uuid\<close> are not code of this repository; the model takes them
  as a record of functions. A result \<open>None\<close> stands for a thrown exception.
  \<open>AES_decrypt\<close> is \<open>CryptoJS.AES.decrypt(...).toString(CryptoJS.enc.Utf8)\<close>, which
  throws on malformed UTF-8. \<open>js_sum\<close> is the value of \<open>a + b + c\<close> when \<open>a\<close> and \<open>b\<close> are
  not both strings (the coercions of \<open>+\<close>), already converted for \<open>MD5\<close>.
  \<open>js_toString\<close> is \<open>v.toString()\<close> on a value that is not a string.
\<close>

record jslib =
  JSON_stringify :: "json \<Rightarrow> string option"
  JSON_parse :: "string \<Rightarrow> json option"
  HmacSHA256 :: "int32 list \<Rightarrow> string \<Rightarrow> int32 list"
  AES_encrypt :: "string \<Rightarrow> int32 list \<Rightarrow> int32 list \<Rightarrow> int32 list"
  AES_decrypt :: "int32 list \<Rightarrow> int32 list \<Rightarrow> int32 list \<Rightarrow> string option"
  Base64_stringify :: "int32 list \<Rightarrow> string"
  Base64_parse :: "string \<Rightarrow> int32 list"
  MD5 :: "string \<Rightarrow> string"
  js_sum :: "json option \<Rightarrow> json option \<Rightarrow> string option \<Rightarrow> string"
  js_toString :: "json \<Rightarrow> string"

text \<open>
  What the round trip needs of the library: \<open>JSON.parse\<close> inverts \<open>JSON.stringify\<close>
  wherever the latter returns, AES decryption inverts encryption under the key derived
  from the same salt and password and the same 16-byte iv, and Base64 decoding inverts
  Base64 encoding.
\<close>

definition lib_ok :: "jslib \<Rightarrow> bool" where
  "lib_ok L \<longleftrightarrow>
     (\<forall>j s. JSON_stringify L j = Some s \<longrightarrow> JSON_parse L s = Some j) \<and>
     (\<forall>s salt p iv. length iv = 4 \<longrightarrow>
        AES_decrypt L (AES_encrypt L s (HmacSHA256 L salt p) iv) (HmacSHA256 L salt p) iv = Some s) \<and>
     (\<forall>ws. Base64_parse L (Base64_stringify L ws) = ws)"

section \<open>Packet codec (WssBridgePackData)\<close>

record pack =
  route :: "json option"
  reqId :: "json option"
  message :: "json option"

text \<open>A frame is a string or an ArrayBuffer.\<close>

datatype wire = Text string | Buffer "byte list"

text \<open>
  The object that \<open>JSON.stringify(pack)\<close> prints: the three own properties in declaration
  order, a property whose value is \<open>undefined\<close> being left out.
\<close>

fun own_prop :: "string \<Rightarrow> json option \<Rightarrow> (string \<times> json) list" where
  "own_prop k None = []"
| "own_prop k (Some v) = [(k, v)]"

definition pack_json :: "pack \<Rightarrow> json" where
  "pack_json p = JObj (own_prop ''route'' (route p) @ own_prop ''reqId'' (reqId p) @ own_prop ''message'' (message p))"

text \<open>
  \<open>new WssBridgePackData(obj.route, obj.reqId, obj.message)\<close>: reading a property of
  \<open>null\<close> throws a TypeError.
\<close>

fun pack_of :: "json \<Rightarrow> pack option" where
  "pack_of JNull = None"
| "pack_of obj = Some \<lparr>route = js_get obj ''route'', reqId = js_get obj ''reqId'',
                       message = js_get obj ''message''\<rparr>"

text \<open>
  \<open>serialize\<close>: \<open>salt\<close> and \<open>iv\<close> are the two draws of \<open>WordArray.random(16)\<close>. The
  \<open>try/catch\<close> turns every exception into the result \<open>null\<close>, here \<open>None\<close>.
\<close>

definition serialize :: "jslib \<Rightarrow> int32 list \<Rightarrow> int32 list \<Rightarrow> pack \<Rightarrow> string option \<Rightarrow> bool \<Rightarrow> wire option" where
  "serialize L salt iv p pwd binary =
     (case JSON_stringify L (pack_json p) of
        None \<Rightarrow> None
      | Some str \<Rightarrow>
          if truthy_str pwd then
            (let key = HmacSHA256 L salt (the pwd);
                 body = AES_encrypt L str key iv;
                 encRes = salt @ iv @ body
             in Some (if binary then Buffer (Int32Array_buffer encRes)
                      else Text (Base64_stringify L encRes)))
          else Some (Text str))"

definition deserialize :: "jslib \<Rightarrow> wire \<Rightarrow> string option \<Rightarrow> pack option" where
  "deserialize L data pwd =
     (if truthy_str pwd then
        (case (case data of Buffer bs \<Rightarrow> Int32Array_of bs | Text s \<Rightarrow> Some (Base64_parse L s)) of
           None \<Rightarrow> None
         | Some words \<Rightarrow>
             (let salt = take 4 words;
                  iv = take 4 (drop 4 words);
                  key = HmacSHA256 L salt (the pwd);
                  body = drop 8 words
              in case AES_decrypt L body key iv of
                   None \<Rightarrow> None
                 | Some decRes \<Rightarrow>
                     (case JSON_parse L decRes of None \<Rightarrow> None | Some obj \<Rightarrow> pack_of obj)))
      else
        (case data of
           Buffer bs \<Rightarrow> pack_of (JObj [])
         | Text s \<Rightarrow> (case JSON_parse L s of None \<Rightarrow> None | Some obj \<Rightarrow> pack_of obj)))"

section \<open>A small concrete library\<close>

text \<open>
  An instance of the library record on which the definitions can be run: a small
  JSON table, a key-independent stand-in for the cipher (one word per character) and a
  byte-per-character stand-in for Base64. It satisfies \<open>lib_ok\<close>.
\<close>

definition toy_table :: "(string \<times> json) list" where
  "toy_table =
     [(''{\"route\":\"echo\",\"reqId\":1,\"message\":\"hi\"}'',
         JObj [(''route'', JStr ''echo''), (''reqId'', JNum 1), (''message'', JStr ''hi'')]),
      (''{}'', JObj []),
      (''123'', JNum 123),
      (''null'', JNull),
      (''{\"route\":\"evt\",\"message\":\"x\"}'',
         JObj [(''route'', JStr ''evt''), (''message'', JStr ''x'')]),
      (''{\"route\":\"$innerGRP$\",\"reqId\":2,\"message\":{\"tid\":\"g\",\"route\":\"evt\",\"message\":\"x\",\"word\":\"w\",\"sign\":\"md5:evtws\"}}'',
         JObj [(''route'', JStr ''$innerGRP$''), (''reqId'', JNum 2),
               (''message'', JObj [(''tid'', JStr ''g''), (''route'', JStr ''evt''),
                  (''message'', JStr ''x''), (''word'', JStr ''w''), (''sign'', JStr ''md5:evtws'')])]),
      (''{\"route\":\"$innerGRP\",\"reqId\":3,\"message\":{\"tid\":\"g\",\"route\":\"evt\",\"message\":\"x\",\"word\":\"w\",\"sign\":\"md5:evtws\"}}'',
         JObj [(''route'', JStr ''$innerGRP''), (''reqId'', JNum 3),
               (''message'', JObj [(''tid'', JStr ''g''), (''route'', JStr ''evt''),
                  (''message'', JStr ''x''), (''word'', JStr ''w''), (''sign'', JStr ''md5:evtws'')])])]"

definition toy_lib :: jslib where
  "toy_lib = \<lparr>
     JSON_stringify = (\<lambda>j. map_of (map (\<lambda>(s, v). (v, s)) toy_table) j),
     JSON_parse = map_of toy_table,
     HmacSHA256 = (\<lambda>salt p. salt @ salt),
     AES_encrypt = (\<lambda>s key iv. map (\<lambda>c. of_nat (of_char c)) s),
     AES_decrypt = (\<lambda>body key iv. Some (map (\<lambda>w. char_of (unat w)) body)),
     Base64_stringify = (\<lambda>ws. map (\<lambda>b. char_of (unat b)) (Int32Array_buffer ws)),
     Base64_parse = (\<lambda>s. case Int32Array_of (map (\<lambda>c. of_nat (of_char c)) s) of
                          None \<Rightarrow> [] | Some ws \<Rightarrow> ws),
     MD5 = (\<lambda>s. ''md5:'' @ s),
     js_sum = (\<lambda>a b c. ''NaN''),
     js_toString = (\<lambda>v. ''[object Object]'') \<rparr>"

section \<open>Sessions (WssSession)\<close>

datatype ready_state = CONNECTING | OPEN | CLOSING | CLOSED

text \<open>
  \<open>WssUIDLike\<close> is any value with a \<open>toString()\<close>. The code uses a uid or group id only
  through its string form and, in \<open>isBinded\<close> and \<open>_generateInnerData\<close>, its truthiness
  (the number \<open>0\<close> and the empty string are falsy).
\<close>

record uidlike =
  toStr :: string
  truthy :: bool

text \<open>The group id that \<open>eachChannel\<close> hands to its callback: the property key itself.\<close>

definition key_uid :: "string \<Rightarrow> uidlike" where
  "key_uid k = \<lparr>toStr = k, truthy = (k \<noteq> [])\<rparr>"

text \<open>
  \<open>s_socket\<close> is \<open>None\<close> when \<open>_socket\<close> is \<open>null\<close>, and the ready state of the WebSocket
  otherwise; the ready state is the socket's own and no operation below changes it.
  \<open>s_channel\<close> lists the keys of \<open>_channel\<close>. The session's \<open>_id\<close> is its address in the
  server's store.
\<close>

record session =
  s_socket :: "ready_state option"
  s_ip :: string
  s_uid :: "uidlike option"
  s_channel :: "string list"
  reqIdList :: "real list"
  lastHeart :: int

definition new_session :: "string \<Rightarrow> int \<Rightarrow> session" where
  "new_session ip now = \<lparr>s_socket = Some OPEN, s_ip = ip, s_uid = None, s_channel = [],
                          reqIdList = [], lastHeart = now\<rparr>"

definition isBinded :: "session \<Rightarrow> bool" where
  "isBinded s = (case s_uid s of None \<Rightarrow> False | Some u \<Rightarrow> truthy u)"

definition session_bindUid :: "uidlike \<Rightarrow> session \<Rightarrow> session" where
  "session_bindUid u s = s\<lparr>s_uid := Some u\<rparr>"

definition session_unbindUid :: "session \<Rightarrow> session" where
  "session_unbindUid s = s\<lparr>s_uid := None\<rparr>"

definition session_joinChannel :: "uidlike \<Rightarrow> session \<Rightarrow> session" where
  "session_joinChannel gid s =
     (if toStr gid \<in> set (s_channel s) then s else s\<lparr>s_channel := s_channel s @ [toStr gid]\<rparr>)"

definition session_quitChannel :: "uidlike \<Rightarrow> session \<Rightarrow> session" where
  "session_quitChannel gid s = s\<lparr>s_channel := removeAll (toStr gid) (s_channel s)\<rparr>"

text \<open>
  \<open>updateReqId\<close>: \<open>lastIndexOf\<close> finds the id with \<open>===\<close>; \<open>splice(0, n)\<close> removes the first
  \<open>n\<close> elements, none when \<open>n\<close> is negative.
\<close>

definition updateReqId :: "real \<Rightarrow> int \<Rightarrow> session \<Rightarrow> bool \<times> session" where
  "updateReqId r cacheSize s =
     (if r \<in> set (reqIdList s) then (False, s)
      else (True, s\<lparr>reqIdList :=
              (if cacheSize \<le> int (length (reqIdList s))
               then drop (nat (cacheSize div 2)) (reqIdList s)
               else reqIdList s) @ [r]\<rparr>))"

definition updateHeart :: "int \<Rightarrow> session \<Rightarrow> session" where
  "updateHeart now s = s\<lparr>lastHeart := now\<rparr>"

definition isExpired :: "int \<Rightarrow> int \<Rightarrow> session \<Rightarrow> bool" where
  "isExpired now tmo s \<longleftrightarrow> lastHeart s + tmo < now"

section \<open>Message server (WssServer)\<close>

subsection \<open>RouteCode\<close>

definition ROUTE_HEARTICK :: string where "ROUTE_HEARTICK = ''$heartick$''"
definition ROUTE_RESPONSE :: string where "ROUTE_RESPONSE = ''$response$''"
definition ROUTE_INNERP2P :: string where "ROUTE_INNERP2P = ''$innerP2P$''"
definition ROUTE_INNERGRP :: string where "ROUTE_INNERGRP = ''$innerGRP''"
definition ROUTE_INNERALL :: string where "ROUTE_INNERALL = ''$innerALL$''"
definition ROUTE_INNERRMC :: string where "ROUTE_INNERRMC = ''$innerRMC$''"

definition CODE_PARSE :: "int \<times> string" where "CODE_PARSE = (4001, ''parse error'')"
definition CODE_FORMAT :: "int \<times> string" where "CODE_FORMAT = (4002, ''format error'')"
definition CODE_REPEAT :: "int \<times> string" where "CODE_REPEAT = (4003, ''repeat error'')"
definition CODE_SIGN :: "int \<times> string" where "CODE_SIGN = (4004, ''sign error'')"
definition CODE_REMOTE :: "int \<times> string" where "CODE_REMOTE = (4005, ''remote error'')"
definition CODE_ROUTE :: "int \<times> string" where "CODE_ROUTE = (4006, ''route error'')"
definition CODE_SOCKET :: "int \<times> string" where "CODE_SOCKET = (4007, ''socket error'')"
definition CODE_TIMEOUT :: "int \<times> string" where "CODE_TIMEOUT = (4008, ''timeout error'')"
definition CODE_NEWBIND :: "int \<times> string" where "CODE_NEWBIND = (4009, ''newbind error'')"

subsection \<open>State\<close>

record config =
  pwd :: "string option"
  secret :: "string option"
  binary :: bool
  cycle :: int
  timeout :: int
  reqIdCache :: int

definition default_config :: config where
  "default_config = \<lparr>pwd = None, secret = None, binary = False, cycle = 60 * 1000,
                       timeout = 60 * 1000 * 3, reqIdCache = 32\<rparr>"

text \<open>\<open>GroupChannel\<close>: \<open>sessions\<close> lists the keys (session ids) in ascending order.\<close>

record channel =
  count :: int
  sessions :: "nat list"

text \<open>\<open>InnerData\<close> as \<open>_generateInnerData\<close> builds it.\<close>

record InnerData =
  in_tid :: "uidlike option"
  in_route :: string
  in_message :: "json option"
  in_word :: string
  in_sign :: string

text \<open>
  What the server does to the outside, in order: logger calls (level, first argument,
  session id when the call names one), socket closes and sends, calls of the handlers
  and listeners the application registered, and requests handed to a peer's client.
  The handlers are application code: the model records the call and nothing of its effect.
\<close>

datatype level = TRACE | DEBUG | INFO | ERROR

datatype event =
    Log level string "nat option"
  | SocketClose nat int string
  | SocketSend nat "wire option"
  | RouterCall string nat pack
  | RemoteCall string nat pack
  | SessionCloseListener nat int string
  | PeerRequest string string InnerData

text \<open>
  The registries are JavaScript objects used as dictionaries: association lists of the
  own properties in enumeration order for \<open>_sessionMap\<close> and \<open>_channelMap\<close>, the
  registered routes for \<open>_routerMap\<close> and \<open>_remoteMap\<close>, the ids for \<open>_socketMap\<close>, the
  peer urls of each group for \<open>_clusterMap\<close>. Session objects live in \<open>store\<close>, addressed
  by their id.
\<close>

record server =
  cfg :: config
  routerMap :: "string set"
  remoteMap :: "string set"
  socketMap :: "nat list"
  sessionMap :: "(string \<times> nat) list"
  channelMap :: "(string \<times> channel) list"
  clusterMap :: "(string \<times> string list) list"
  sessionCloseListener :: bool
  store :: "nat \<Rightarrow> session"
  increment :: nat
  trace :: "event list"

text \<open>
  The registries are created by the literal \<open>{}\<close>, so a read \<open>obj[k]\<close> finds an own
  property or, when there is none of that name, a member of \<open>Object.prototype\<close>. These
  are the names of its members; each of them is a function or an object (a truthy
  value) that has no property \<open>sessions\<close>. The reads of \<open>_channelMap\<close> are modelled with
  them; \<open>_sessionMap\<close>, \<open>_routerMap\<close>, \<open>_remoteMap\<close> and \<open>_clusterMap\<close> are read at their
  own properties.
\<close>

definition Object_prototype :: "string list" where
  "Object_prototype =
     [''constructor'', ''__defineGetter__'', ''__defineSetter__'', ''hasOwnProperty'',
      ''__lookupGetter__'', ''__lookupSetter__'', ''isPrototypeOf'', ''propertyIsEnumerable'',
      ''toString'', ''valueOf'', ''__proto__'', ''toLocaleString'']"

datatype 'a slot = Absent | Own 'a | Inherited

definition prop_lookup :: "(string \<times> 'a) list \<Rightarrow> string \<Rightarrow> 'a slot" where
  "prop_lookup obj k =
     (case map_of obj k of
        Some v \<Rightarrow> Own v
      | None \<Rightarrow> if k \<in> set Object_prototype then Inherited else Absent)"

datatype error = TypeError

text \<open>A call either returns or throws, in both cases leaving a state behind.\<close>

datatype outcome = Returned server | Threw error server

fun state_of :: "outcome \<Rightarrow> server" where
  "state_of (Returned s) = s"
| "state_of (Threw e s) = s"

definition blank_session :: session where
  "blank_session = \<lparr>s_socket = None, s_ip = [], s_uid = None, s_channel = [],
                      reqIdList = [], lastHeart = 0\<rparr>"

definition new_server :: "config \<Rightarrow> server" where
  "new_server c = \<lparr>cfg = c, routerMap = {}, remoteMap = {}, socketMap = [], sessionMap = [],
                    channelMap = [], clusterMap = [], sessionCloseListener = False,
                    store = (\<lambda>_. blank_session), increment = 1, trace = []\<rparr>"

definition logger :: "level \<Rightarrow> string \<Rightarrow> nat option \<Rightarrow> server \<Rightarrow> server" where
  "logger l tag sid srv = srv\<lparr>trace := trace srv @ [Log l tag sid]\<rparr>"

definition update_session :: "nat \<Rightarrow> (session \<Rightarrow> session) \<Rightarrow> server \<Rightarrow> server" where
  "update_session sid f srv = srv\<lparr>store := (store srv)(sid := f (store srv sid))\<rparr>"

text \<open>\<open>WssSession.close\<close> and \<open>WssSession.send\<close> on the session object \<open>sid\<close>.\<close>

definition session_close :: "nat \<Rightarrow> int \<times> string \<Rightarrow> server \<Rightarrow> server" where
  "session_close sid c srv =
     (if s_socket (store srv sid) \<noteq> None
      then (update_session sid (\<lambda>s. s\<lparr>s_socket := None\<rparr>) srv)
             \<lparr>trace := trace srv @ [SocketClose sid (fst c) (snd c)]\<rparr>
      else srv)"

definition session_send :: "nat \<Rightarrow> wire option \<Rightarrow> server \<Rightarrow> server" where
  "session_send sid d srv =
     (if s_socket (store srv sid) = Some OPEN
      then srv\<lparr>trace := trace srv @ [SocketSend sid d]\<rparr>
      else srv)"

subsection \<open>Registration\<close>

definition setListeners :: "bool \<Rightarrow> server \<Rightarrow> server" where
  "setListeners closeListener srv = srv\<lparr>sessionCloseListener := closeListener\<rparr>"

definition setRouter :: "string \<Rightarrow> server \<Rightarrow> server" where
  "setRouter r srv = srv\<lparr>routerMap := insert r (routerMap srv)\<rparr>"

definition setRemote :: "string \<Rightarrow> server \<Rightarrow> server" where
  "setRemote r srv = srv\<lparr>remoteMap := insert r (remoteMap srv)\<rparr>"

subsection \<open>UID binding\<close>

definition unbindUid :: "nat \<Rightarrow> server \<Rightarrow> server" where
  "unbindUid sid srv =
     (if \<not> isBinded (store srv sid) then srv
      else
        (let srv1 = logger DEBUG ''unbindUid:'' (Some sid) srv;
             srv2 = srv1\<lparr>sessionMap :=
                      AList.delete (toStr (the (s_uid (store srv1 sid)))) (sessionMap srv1)\<rparr>
         in update_session sid session_unbindUid srv2))"

definition bindUid :: "nat \<Rightarrow> uidlike \<Rightarrow> bool \<Rightarrow> server \<Rightarrow> server" where
  "bindUid sid u closeold srv =
     (let srv1 = (case map_of (sessionMap srv) (toStr u) of
                    None \<Rightarrow> srv
                  | Some sessionold \<Rightarrow>
                      (let srv' = unbindUid sessionold srv
                       in if closeold then session_close sessionold CODE_NEWBIND srv' else srv'));
          srv2 = unbindUid sid srv1;
          srv3 = update_session sid (session_bindUid u) srv2;
          srv4 = srv3\<lparr>sessionMap := AList.update (toStr u) sid (sessionMap srv3)\<rparr>
      in logger DEBUG ''bindUid:'' (Some sid) srv4)"

definition getSession :: "uidlike \<Rightarrow> server \<Rightarrow> nat option" where
  "getSession u srv = map_of (sessionMap srv) (toStr u)"

subsection \<open>Channels\<close>

text \<open>
  \<open>joinChannel\<close> and \<open>quitChannel\<close> read \<open>channel.sessions[session.id]\<close>: on an inherited
  member \<open>channel.sessions\<close> is \<open>undefined\<close> and the read throws a TypeError, before
  anything is stored.
\<close>

definition joinChannel :: "nat \<Rightarrow> uidlike \<Rightarrow> server \<Rightarrow> outcome" where
  "joinChannel sid gid srv =
     (let join = (\<lambda>ch.
            (let member = (sid \<in> set (sessions ch));
                 ch' = (if member then ch
                        else ch\<lparr>sessions := insort sid (sessions ch), count := count ch + 1\<rparr>);
                 srv1 = (if member then srv else update_session sid (session_joinChannel gid) srv);
                 srv2 = srv1\<lparr>channelMap := AList.update (toStr gid) ch' (channelMap srv1)\<rparr>
             in Returned (logger DEBUG ''joinChannel:'' (Some sid) srv2)))
      in case prop_lookup (channelMap srv) (toStr gid) of
           Absent \<Rightarrow> join \<lparr>count = 0, sessions = []\<rparr>
         | Own c \<Rightarrow> join c
         | Inherited \<Rightarrow> Threw TypeError srv)"

definition quitChannel :: "nat \<Rightarrow> uidlike \<Rightarrow> server \<Rightarrow> outcome" where
  "quitChannel sid gid srv =
     (case prop_lookup (channelMap srv) (toStr gid) of
        Absent \<Rightarrow> Returned srv
      | Inherited \<Rightarrow> Threw TypeError srv
      | Own ch \<Rightarrow>
          (let member = (sid \<in> set (sessions ch));
               ch' = (if member
                      then ch\<lparr>sessions := remove1 sid (sessions ch), count := count ch - 1\<rparr>
                      else ch);
               srv1 = (if member then update_session sid (session_quitChannel gid) srv else srv);
               srv2 = srv1\<lparr>channelMap :=
                        (if count ch' \<le> 0 then AList.delete (toStr gid) (channelMap srv1)
                         else AList.update (toStr gid) ch' (channelMap srv1))\<rparr>
           in Returned (logger DEBUG ''quitChannel:'' (Some sid) srv2)))"

text \<open>
  \<open>deleteChannel\<close> and \<open>pushChannel\<close> only enumerate \<open>channel.sessions\<close>: a \<open>for in\<close> over
  \<open>undefined\<close> runs no iteration and throws nothing.
\<close>

definition deleteChannel :: "uidlike \<Rightarrow> server \<Rightarrow> server" where
  "deleteChannel gid srv =
     (case prop_lookup (channelMap srv) (toStr gid) of
        Absent \<Rightarrow> srv
      | Inherited \<Rightarrow> logger DEBUG ''deleteChannel:'' None srv
      | Own ch \<Rightarrow>
          (let srv1 = fold (\<lambda>id. update_session id (session_quitChannel gid)) (sessions ch) srv;
               srv2 = srv1\<lparr>channelMap := AList.delete (toStr gid) (channelMap srv1)\<rparr>
           in logger DEBUG ''deleteChannel:'' None srv2))"

subsection \<open>Connections\<close>

text \<open>
  \<open>_onWebSocketConnection\<close>: \<open>ip\<close> is what \<open>getIPV4\<close> returns and \<open>now\<close> is \<open>Date.now()\<close>.
\<close>

definition onWebSocketConnection :: "string \<Rightarrow> int \<Rightarrow> server \<Rightarrow> server" where
  "onWebSocketConnection ip now srv =
     (let sid = increment srv;
          srv1 = srv\<lparr>increment := sid + 1, store := (store srv)(sid := new_session ip now)\<rparr>;
          srv2 = srv1\<lparr>socketMap := (if sid \<in> set (socketMap srv1) then socketMap srv1
                                      else socketMap srv1 @ [sid])\<rparr>
      in logger INFO ''on websocket connection:'' (Some sid) srv2)"

text \<open>
  \<open>session.eachChannel((gid) => { this.quitChannel(session, gid) })\<close>: the keys of
  \<open>_channel\<close> in turn; an exception of \<open>quitChannel\<close> ends the enumeration.
\<close>

fun eachChannel_quit :: "nat \<Rightarrow> string list \<Rightarrow> server \<Rightarrow> outcome" where
  "eachChannel_quit sid [] srv = Returned srv"
| "eachChannel_quit sid (k # ks) srv =
     (case quitChannel sid (key_uid k) srv of
        Returned srv' \<Rightarrow> eachChannel_quit sid ks srv'
      | Threw e srv' \<Rightarrow> Threw e srv')"

text \<open>
  The handler of the socket's \<open>close\<close> event. An exception of the enumeration leaves
  the handler: the uid is then not unbound and the session stays in \<open>_socketMap\<close>.
\<close>

definition onSocketClose :: "nat \<Rightarrow> int \<Rightarrow> string \<Rightarrow> server \<Rightarrow> outcome" where
  "onSocketClose sid code reason srv =
     (let srv1 = logger INFO ''on websocket close:'' (Some sid) srv;
          srv2 = (if sessionCloseListener srv1
                  then srv1\<lparr>trace := trace srv1 @ [SessionCloseListener sid code reason]\<rparr>
                  else srv1)
      in case eachChannel_quit sid (s_channel (store srv2 sid)) srv2 of
           Threw e srv3 \<Rightarrow> Threw e srv3
         | Returned srv3 \<Rightarrow>
             (let srv4 = unbindUid sid srv3
              in Returned (srv4\<lparr>socketMap := removeAll sid (socketMap srv4)\<rparr>)))"

text \<open>The handler of the socket's \<open>error\<close> event.\<close>

definition onSocketError :: "nat \<Rightarrow> string \<Rightarrow> server \<Rightarrow> server" where
  "onSocketError sid err srv =
     session_close sid (fst CODE_SOCKET, snd CODE_SOCKET @ '': '' @ err)
       (logger ERROR ''on websocket error:'' (Some sid) srv)"

subsection \<open>Push primitives\<close>

definition pushSession ::
  "jslib \<Rightarrow> int32 list \<Rightarrow> int32 list \<Rightarrow> uidlike \<Rightarrow> json option \<Rightarrow> json option \<Rightarrow> server \<Rightarrow> server" where
  "pushSession L salt iv u r m srv =
     (case map_of (sessionMap srv) (toStr u) of
        None \<Rightarrow> srv
      | Some sid \<Rightarrow>
          (let pk = \<lparr>route = r, reqId = None, message = m\<rparr>;
               d = serialize L salt iv pk (pwd (cfg srv)) (binary (cfg srv))
           in logger DEBUG ''pushSession:'' (Some sid) (session_send sid d srv)))"

definition pushChannel ::
  "jslib \<Rightarrow> int32 list \<Rightarrow> int32 list \<Rightarrow> uidlike \<Rightarrow> json option \<Rightarrow> json option \<Rightarrow> server \<Rightarrow> server" where
  "pushChannel L salt iv gid r m srv =
     (case prop_lookup (channelMap srv) (toStr gid) of
        Absent \<Rightarrow> srv
      | Inherited \<Rightarrow> logger DEBUG ''pushChannel:'' None srv
      | Own ch \<Rightarrow>
          (let pk = \<lparr>route = r, reqId = None, message = m\<rparr>;
               d = serialize L salt iv pk (pwd (cfg srv)) (binary (cfg srv))
           in logger DEBUG ''pushChannel:'' None
                (fold (\<lambda>id. session_send id d) (sessions ch) srv)))"

definition broadcast ::
  "jslib \<Rightarrow> int32 list \<Rightarrow> int32 list \<Rightarrow> json option \<Rightarrow> json option \<Rightarrow> server \<Rightarrow> server" where
  "broadcast L salt iv r m srv =
     (let pk = \<lparr>route = r, reqId = None, message = m\<rparr>;
          d = serialize L salt iv pk (pwd (cfg srv)) (binary (cfg srv))
      in logger DEBUG ''broadcast:'' None
           (fold (\<lambda>id. session_send id d) (map snd (sessionMap srv)) srv))"

definition sendHeartick ::
  "jslib \<Rightarrow> int32 list \<Rightarrow> int32 list \<Rightarrow> nat \<Rightarrow> pack \<Rightarrow> server \<Rightarrow> server" where
  "sendHeartick L salt iv sid reqPack srv =
     (let pk = \<lparr>route = Some (JStr ROUTE_HEARTICK), reqId = reqId reqPack, message = message reqPack\<rparr>;
          d = serialize L salt iv pk (pwd (cfg srv)) (binary (cfg srv))
      in logger TRACE ''_sendHeartick:'' (Some sid) (session_send sid d srv))"

subsection \<open>Signed inner envelopes\<close>

definition getMd5 :: "jslib \<Rightarrow> string \<Rightarrow> string" where
  "getMd5 L s = MD5 L s"

text \<open>
  The argument of \<open>getMd5\<close>, \<open>route + word + secret\<close>: concatenation when \<open>route\<close> and
  \<open>word\<close> are strings (a \<open>null\<close> secret then reads \<open>null\<close>), the library's coercions
  otherwise.
\<close>

definition sign_text :: "jslib \<Rightarrow> json option \<Rightarrow> json option \<Rightarrow> string option \<Rightarrow> string" where
  "sign_text L r w sec =
     (case (r, w) of
        (Some (JStr a), Some (JStr b)) \<Rightarrow> a @ b @ (case sec of None \<Rightarrow> ''null'' | Some c \<Rightarrow> c)
      | _ \<Rightarrow> js_sum L r w sec)"

text \<open>\<open>word\<close> is the value of \<open>uuid()\<close>.\<close>

definition generateInnerData ::
  "jslib \<Rightarrow> string \<Rightarrow> uidlike option \<Rightarrow> string \<Rightarrow> json option \<Rightarrow> server \<Rightarrow> InnerData" where
  "generateInnerData L word tid r m srv =
     \<lparr>in_tid = (case tid of None \<Rightarrow> None | Some t \<Rightarrow> if truthy t then Some t else None),
      in_route = r, in_message = m, in_word = word,
      in_sign = getMd5 L (sign_text L (Some (JStr r)) (Some (JStr word)) (secret (cfg srv)))\<rparr>"

text \<open>\<open>_validateInnerData\<close> on a received \<open>message\<close>, which is neither \<open>null\<close> nor \<open>undefined\<close>.\<close>

definition validateInnerData :: "jslib \<Rightarrow> server \<Rightarrow> json \<Rightarrow> bool" where
  "validateInnerData L srv d \<longleftrightarrow>
     Some (JStr (getMd5 L (sign_text L (js_get d ''route'') (js_get d ''word'') (secret (cfg srv)))))
       = js_get d ''sign''"

subsection \<open>Cluster dispatch\<close>

text \<open>
  \<open>pushClusterChannel\<close>: \<open>idx\<close> is the index the dispatch callback returns when one is
  given. \<open>handle.rmc.request(route, innerData)\<close> is recorded as a \<open>PeerRequest\<close> to the
  peer's url. An unknown group or an index outside the group is a TypeError.
\<close>

definition pushClusterChannel ::
  "jslib \<Rightarrow> string \<Rightarrow> string \<Rightarrow> uidlike \<Rightarrow> string \<Rightarrow> json option \<Rightarrow> nat option \<Rightarrow> server \<Rightarrow> outcome" where
  "pushClusterChannel L word appName gid r m idx srv =
     (let innerData = generateInnerData L word (Some gid) r m srv;
          send = (\<lambda>url s. logger DEBUG ''pushClusterChannel:'' None
                    (s\<lparr>trace := trace s @ [PeerRequest url ROUTE_INNERGRP innerData]\<rparr>))
      in case map_of (clusterMap srv) appName of
           None \<Rightarrow> Threw TypeError srv
         | Some cluster \<Rightarrow>
             (case idx of
                Some i \<Rightarrow> if i < length cluster then Returned (send (cluster ! i) srv)
                          else Threw TypeError srv
              | None \<Rightarrow> Returned (fold send cluster srv)))"

subsection \<open>Receive pipeline\<close>

fun str_of :: "json option \<Rightarrow> string" where
  "str_of (Some (JStr s)) = s"
| "str_of _ = []"

fun num_of :: "json option \<Rightarrow> real" where
  "num_of (Some (JNum n)) = n"
| "num_of _ = 0"

fun js_truthy :: "json \<Rightarrow> bool" where
  "js_truthy JNull = False"
| "js_truthy (JBool b) = b"
| "js_truthy (JNum n) = (n \<noteq> 0)"
| "js_truthy (JStr s) = (s \<noteq> [])"
| "js_truthy _ = True"

text \<open>A received \<open>tid\<close> used as a uid: \<open>tid.toString()\<close> throws on \<open>undefined\<close> and \<open>null\<close>.\<close>

fun json_uid :: "jslib \<Rightarrow> json option \<Rightarrow> uidlike option" where
  "json_uid L None = None"
| "json_uid L (Some JNull) = None"
| "json_uid L (Some (JStr s)) = Some \<lparr>toStr = s, truthy = (s \<noteq> [])\<rparr>"
| "json_uid L (Some j) = Some \<lparr>toStr = js_toString L j, truthy = js_truthy j\<rparr>"

text \<open>A value used as a property key.\<close>

fun prop_key :: "jslib \<Rightarrow> json option \<Rightarrow> string" where
  "prop_key L None = ''undefined''"
| "prop_key L (Some JNull) = ''null''"
| "prop_key L (Some (JStr s)) = s"
| "prop_key L (Some j) = js_toString L j"

definition valid_pack :: "pack \<Rightarrow> bool" where
  "valid_pack pk \<longleftrightarrow>
     \<not> (\<not> is_string (route pk) \<or> \<not> is_number (reqId pk) \<or> message pk = None
        \<or> message pk = Some JNull)"

definition tag :: string where
  "tag = ''_onWebSocketMessage:''"

text \<open>The route dispatch of \<open>_onWebSocketMessage\<close>, on a packet that passed the checks.\<close>

definition dispatch ::
  "jslib \<Rightarrow> int32 list \<Rightarrow> int32 list \<Rightarrow> int \<Rightarrow> nat \<Rightarrow> pack \<Rightarrow> server \<Rightarrow> outcome" where
  "dispatch L salt iv now sid pk srv =
     (let r = str_of (route pk); m = the (message pk);
          sign_error = Returned (session_close sid CODE_SIGN (logger ERROR tag (Some sid) srv))
      in
      if r = ROUTE_HEARTICK then
        Returned (sendHeartick L salt iv sid pk
                   (update_session sid (updateHeart now) (logger TRACE tag (Some sid) srv)))
      else if r = ROUTE_INNERP2P then
        (if validateInnerData L srv m then
           (case json_uid L (js_get m ''tid'') of
              None \<Rightarrow> Threw TypeError (logger DEBUG tag (Some sid) srv)
            | Some u \<Rightarrow> Returned (pushSession L salt iv u (js_get m ''route'') (js_get m ''message'')
                                    (logger DEBUG tag (Some sid) srv)))
         else sign_error)
      else if r = ROUTE_INNERGRP then
        (if validateInnerData L srv m then
           (case json_uid L (js_get m ''tid'') of
              None \<Rightarrow> Threw TypeError (logger DEBUG tag (Some sid) srv)
            | Some g \<Rightarrow> Returned (pushChannel L salt iv g (js_get m ''route'') (js_get m ''message'')
                                    (logger DEBUG tag (Some sid) srv)))
         else sign_error)
      else if r = ROUTE_INNERALL then
        (if validateInnerData L srv m then
           Returned (broadcast L salt iv (js_get m ''route'') (js_get m ''message'')
                      (logger DEBUG tag (Some sid) srv))
         else sign_error)
      else if r = ROUTE_INNERRMC then
        (if validateInnerData L srv m then
           (if prop_key L (js_get m ''route'') \<in> remoteMap srv then
              Returned ((logger DEBUG tag (Some sid) srv)
                \<lparr>trace := trace (logger DEBUG tag (Some sid) srv) @
                   [RemoteCall (prop_key L (js_get m ''route'')) sid
                      \<lparr>route = js_get m ''route'', reqId = reqId pk, message = js_get m ''message''\<rparr>]\<rparr>)
            else Returned (session_close sid CODE_REMOTE (logger ERROR tag (Some sid) srv)))
         else sign_error)
      else if r \<in> routerMap srv then
        Returned ((logger DEBUG tag (Some sid) srv)
          \<lparr>trace := trace (logger DEBUG tag (Some sid) srv) @ [RouterCall r sid pk]\<rparr>)
      else Returned (session_close sid CODE_ROUTE (logger ERROR tag (Some sid) srv)))"

definition onWebSocketMessage ::
  "jslib \<Rightarrow> int32 list \<Rightarrow> int32 list \<Rightarrow> int \<Rightarrow> nat \<Rightarrow> wire \<Rightarrow> server \<Rightarrow> outcome" where
  "onWebSocketMessage L salt iv now sid d srv =
     (case deserialize L d (pwd (cfg srv)) of
        None \<Rightarrow> Returned (session_close sid CODE_PARSE (logger ERROR tag (Some sid) srv))
      | Some pk \<Rightarrow>
          if \<not> valid_pack pk then
            Returned (session_close sid CODE_FORMAT (logger ERROR tag (Some sid) srv))
          else
            (case updateReqId (num_of (reqId pk)) (reqIdCache (cfg srv)) (store srv sid) of
               (False, s') \<Rightarrow>
                 Returned (session_close sid CODE_REPEAT (logger ERROR tag (Some sid) srv))
             | (True, s') \<Rightarrow>
                 dispatch L salt iv now sid pk (srv\<lparr>store := (store srv)(sid := s')\<rparr>)))"

section \<open>Bridge client (WssBridge)\<close>

definition CODE_RETRY :: "int \<times> string" where "CODE_RETRY = (4101, ''retry'')"
definition CODE_CLOSE :: "int \<times> string" where "CODE_CLOSE = (4102, ''close'')"
definition CODE_ERROR :: "int \<times> string" where "CODE_ERROR = (4103, ''error'')"
definition CODE_CALL :: "int \<times> string" where "CODE_CALL = (4104, ''call'')"

text \<open>
  \<open>WssBridgeRequest\<close>: the submission time and the two optional callbacks, each named by
  an identifier. \<open>WssBridgeResponse\<close>: a status code and a value.
\<close>

record request =
  r_time :: int
  onsuccess :: "nat option"
  onerror :: "nat option"

record response =
  code :: int
  rdata :: "json option"

text \<open>
  What the client does to the outside: frames sent, sockets closed and opened, and the
  callbacks it invokes. \<open>RequestError k cb resp\<close> is the pending request stored under
  key \<open>k\<close> calling its error callback \<open>cb\<close> with \<open>resp\<close>; \<open>RequestSuccess\<close> likewise.
\<close>

datatype bevent =
    WsSend wire
  | WsClose int string
  | WsOpen string
  | OnError string
  | OnRetry nat
  | OnSecond nat int
  | RequestSuccess nat nat response
  | RequestError nat nat response

text \<open>
  \<open>requests\<close> lists \<open>_requests\<close> in enumeration order. \<open>b_socket\<close> is \<open>None\<close> when
  \<open>_socket\<close> is \<open>null\<close>, and the socket's ready state otherwise. \<open>has_onerror\<close>,
  \<open>has_onretry\<close> and \<open>has_onsecond\<close> say whether \<open>connect\<close> installed the callback.
\<close>

record bridge =
  host :: string
  b_pwd :: "string option"
  b_binary :: bool
  b_timeout :: int
  heartick :: int
  conntick :: int
  timerInc :: nat
  reqIdInc :: nat
  netDelay :: int
  retryCnt :: nat
  requests :: "(nat \<times> request) list"
  b_socket :: "ready_state option"
  paused :: bool
  expired :: bool
  has_onerror :: bool
  has_onretry :: bool
  has_onsecond :: bool

definition new_bridge :: "string \<Rightarrow> string option \<Rightarrow> bool \<Rightarrow> int \<Rightarrow> int \<Rightarrow> int \<Rightarrow> bridge" where
  "new_bridge h p bin tmo ht ct =
     \<lparr>host = h, b_pwd = p, b_binary = bin, b_timeout = tmo, heartick = ht, conntick = ct,
      timerInc = 0, reqIdInc = 0, netDelay = 0, retryCnt = 0, requests = [], b_socket = None,
      paused = False, expired = False, has_onerror = False, has_onretry = False,
      has_onsecond = False\<rparr>"

definition isConnected :: "bridge \<Rightarrow> bool" where
  "isConnected b \<longleftrightarrow> b_socket b = Some OPEN"

definition callSuccess :: "nat \<Rightarrow> request \<Rightarrow> response \<Rightarrow> bevent list" where
  "callSuccess k rq resp = (case onsuccess rq of None \<Rightarrow> [] | Some cb \<Rightarrow> [RequestSuccess k cb resp])"

definition callError :: "nat \<Rightarrow> request \<Rightarrow> response \<Rightarrow> bevent list" where
  "callError k rq resp = (case onerror rq of None \<Rightarrow> [] | Some cb \<Rightarrow> [RequestError k cb resp])"

definition gateway_timeout :: response where
  "gateway_timeout = \<lparr>code = 504, rdata = Some (JStr ''Gateway Timeout'')\<rparr>"

text \<open>\<open>sendPackData\<close>: \<open>!data\<close> holds for \<open>null\<close> and for the empty string.\<close>

definition sendPackData :: "jslib \<Rightarrow> int32 list \<Rightarrow> int32 list \<Rightarrow> pack \<Rightarrow> bridge \<Rightarrow> bevent list" where
  "sendPackData L salt iv pk b =
     (if expired b then []
      else if isConnected b then
        (case serialize L salt iv pk (b_pwd b) (b_binary b) of
           None \<Rightarrow> if has_onerror b then [OnError ''Serialize Error''] else []
         | Some d \<Rightarrow> if d = Text [] then (if has_onerror b then [OnError ''Serialize Error''] else [])
                     else [WsSend d])
      else [])"

definition safeClose :: "int \<times> string \<Rightarrow> bridge \<Rightarrow> bridge \<times> bevent list" where
  "safeClose c b =
     (if b_socket b \<noteq> None then (b\<lparr>b_socket := None\<rparr>, [WsClose (fst c) (snd c)])
      else (b, []))"

definition safeOpen :: "bridge \<Rightarrow> bridge \<times> bevent list" where
  "safeOpen b =
     (let (b1, ev) = safeClose CODE_RETRY b
      in if expired b1 then (b1, ev)
         else (b1\<lparr>b_socket := Some CONNECTING\<rparr>, ev @ [WsOpen (host b1)]))"

text \<open>
  \<open>request\<close>: \<open>now\<close> is the \<open>Date.now()\<close> of the \<open>WssBridgeRequest\<close> constructor; \<open>ok\<close> and
  \<open>err\<close> are the optional callbacks.
\<close>

definition request ::
  "jslib \<Rightarrow> int32 list \<Rightarrow> int32 list \<Rightarrow> int \<Rightarrow> string \<Rightarrow> json option \<Rightarrow> nat option \<Rightarrow> nat option \<Rightarrow> bridge
     \<Rightarrow> bridge \<times> bevent list" where
  "request L salt iv now r m ok err b =
     (let k = reqIdInc b;
          b1 = b\<lparr>reqIdInc := k + 1\<rparr>;
          b2 = (if ok \<noteq> None \<or> err \<noteq> None
                then b1\<lparr>requests := AList.update k \<lparr>r_time = now, onsuccess = ok, onerror = err\<rparr>
                                        (requests b1)\<rparr>
                else b1)
      in (b2, sendPackData L salt iv
                \<lparr>route = Some (JStr r), reqId = Some (JNum (real k)), message = m\<rparr> b2))"

text \<open>
  \<open>onTimerTick\<close>, in its three parts: the sweep of the pending requests, the heartbeat
  or the reconnection, and the per-second callback. \<open>now\<close> is the \<open>Date.now()\<close> of the
  sweep and \<open>now2\<close> the one of the heartbeat packet. \<open>a % b === 0\<close> is false when \<open>b\<close>
  is \<open>0\<close>.
\<close>

definition timed_out :: "int \<Rightarrow> bridge \<Rightarrow> nat \<times> request \<Rightarrow> bool" where
  "timed_out now b kr \<longleftrightarrow> b_timeout b < now - r_time (snd kr)"

definition sweep :: "int \<Rightarrow> bridge \<Rightarrow> bridge \<times> bevent list" where
  "sweep now b =
     (let list = filter (timed_out now b) (requests b);
          ev = concat (map (\<lambda>(k, rq). callError k rq gateway_timeout) list)
      in (b\<lparr>requests := fold AList.delete (map fst list) (requests b)\<rparr>, ev))"

definition keepalive :: "jslib \<Rightarrow> int32 list \<Rightarrow> int32 list \<Rightarrow> int \<Rightarrow> bridge \<Rightarrow> bridge \<times> bevent list" where
  "keepalive L salt iv now2 b =
     (if isConnected b then
        (if heartick b \<noteq> 0 \<and> int (timerInc b) mod heartick b = 0 then
           (let k = reqIdInc b; b' = b\<lparr>reqIdInc := k + 1\<rparr>
            in (b', sendPackData L salt iv
                      \<lparr>route = Some (JStr ROUTE_HEARTICK), reqId = Some (JNum (real k)),
                       message = Some (JNum (real_of_int now2))\<rparr> b'))
         else (b, []))
      else
        (if conntick b \<noteq> 0 \<and> int (timerInc b) mod conntick b = 0 \<and> \<not> paused b then
           (let b' = b\<lparr>retryCnt := retryCnt b + 1\<rparr>;
                evr = (if has_onretry b' then [OnRetry (retryCnt b')] else []);
                (b'', evo) = safeOpen b'
            in (b'', evr @ evo))
         else (b, [])))"

definition onTimerTick ::
  "jslib \<Rightarrow> int32 list \<Rightarrow> int32 list \<Rightarrow> int \<Rightarrow> int \<Rightarrow> bridge \<Rightarrow> bridge \<times> bevent list" where
  "onTimerTick L salt iv now now2 b =
     (let b1 = b\<lparr>timerInc := timerInc b + 1\<rparr>;
          (b2, ev1) = sweep now b1;
          (b3, ev2) = keepalive L salt iv now2 b2;
          ev3 = (if has_onsecond b3 then [OnSecond (timerInc b3) (netDelay b3)] else [])
      in (b3, ev1 @ ev2 @ ev3))"

text \<open>The callbacks of the pending request stored under key \<open>k\<close>.\<close>

fun request_event :: "nat \<Rightarrow> bevent \<Rightarrow> bool" where
  "request_event k (RequestSuccess k' cb r) = (k = k')"
| "request_event k (RequestError k' cb r) = (k = k')"
| "request_event k _ = False"

section \<open>Reachable server states\<close>

text \<open>
  The states the server reaches from its construction through the operations of the
  model, whether an operation returns or throws. What a registered handler does is one
  of these operations.
\<close>

inductive reachable :: "server \<Rightarrow> bool" where
  init: "reachable (new_server c)"
| connection: "reachable srv \<Longrightarrow> reachable (onWebSocketConnection ip now srv)"
| join: "reachable srv \<Longrightarrow> reachable (state_of (joinChannel sid gid srv))"
| quit: "reachable srv \<Longrightarrow> reachable (state_of (quitChannel sid gid srv))"
| delete: "reachable srv \<Longrightarrow> reachable (deleteChannel gid srv)"
| close: "reachable srv \<Longrightarrow> reachable (state_of (onSocketClose sid c r srv))"
| bind: "reachable srv \<Longrightarrow> reachable (bindUid sid u closeold srv)"
| unbind: "reachable srv \<Longrightarrow> reachable (unbindUid sid srv)"
| message: "reachable srv \<Longrightarrow> reachable (state_of (onWebSocketMessage L salt iv now sid d srv))"
| router: "reachable srv \<Longrightarrow> reachable (setRouter rt srv)"
| remote: "reachable srv \<Longrightarrow> reachable (setRemote rt srv)"
| listeners: "reachable srv \<Longrightarrow> reachable (setListeners b srv)"



text \<open>No own property of the channel registry has the name of an inherited one.\<close>

definition names_ok :: "server \<Rightarrow> bool" where
  "names_ok srv \<longleftrightarrow> (\<forall>k. k \<in> set Object_prototype \<longrightarrow> map_of (channelMap srv) k = None)"

section \<open>Concrete states\<close>

text \<open>
  A server with the secret \<open>s\<close>, the user route \<open>echo\<close> and one connection (session 1);
  the same with a second connection (session 2); the frames of the small library's table.
\<close>

definition demo_config :: config where
  "demo_config = default_config\<lparr>secret := Some ''s''\<rparr>"

definition demo_server :: server where
  "demo_server = onWebSocketConnection ''127.0.0.1'' 0 (setRouter ''echo'' (new_server demo_config))"

definition demo_server2 :: server where
  "demo_server2 = onWebSocketConnection ''127.0.0.2'' 0 demo_server"

definition echo_frame :: wire where
  "echo_frame = Text ''{\"route\":\"echo\",\"reqId\":1,\"message\":\"hi\"}''"

definition echo_pack :: pack where
  "echo_pack = \<lparr>route = Some (JStr ''echo''), reqId = Some (JNum 1), message = Some (JStr ''hi'')\<rparr>"

definition grp_frame :: "string \<Rightarrow> string \<Rightarrow> wire" where
  "grp_frame r n = Text (''{\"route\":\"'' @ r @ ''\",\"reqId\":'' @ n @
     '',\"message\":{\"tid\":\"g\",\"route\":\"evt\",\"message\":\"x\",\"word\":\"w\",\"sign\":\"md5:evtws\"}}'')"

text \<open>The state after \<open>echo_frame\<close> has arrived once on session 1.\<close>

definition demo_server_once :: server where
  "demo_server_once = state_of (onWebSocketMessage toy_lib [] [] 0 1 echo_frame demo_server)"

definition user_u :: uidlike where
  "user_u = \<lparr>toStr = ''u'', truthy = True\<rparr>"

definition user_v :: uidlike where
  "user_v = \<lparr>toStr = ''v'', truthy = True\<rparr>"

text \<open>
  Two sessions with a channel \<open>g\<close> that both joined and a channel \<open>solo\<close> with session 1
  alone; a server with one peer in the group \<open>chat\<close>; session 1 bound to \<open>u\<close> and session
  2 bound to \<open>v\<close>.
\<close>

definition grp_server :: server where
  "grp_server =
     state_of (joinChannel 1 (key_uid ''solo'')
       (state_of (joinChannel 2 (key_uid ''g'')
          (state_of (joinChannel 1 (key_uid ''g'') demo_server2)))))"

definition cluster_server :: server where
  "cluster_server = demo_server\<lparr>clusterMap := [(''chat'', [''ws://n1:9000''])]\<rparr>"

definition bound_server :: server where
  "bound_server = bindUid 2 user_v True (bindUid 1 user_u True demo_server2)"

text \<open>
  The number \<open>0\<close> and the empty string as uids, both falsy; session 1 bound to \<open>0\<close> and
  session 2 bound to the empty string.
\<close>

definition uid_zero :: uidlike where
  "uid_zero = \<lparr>toStr = ''0'', truthy = False\<rparr>"

definition uid_empty :: uidlike where
  "uid_empty = \<lparr>toStr = [], truthy = False\<rparr>"

definition falsy_server :: server where
  "falsy_server = bindUid 2 uid_empty True (bindUid 1 uid_zero True demo_server2)"

text \<open>
  A client that is not connected, with timeout 8000 and two pending requests, submitted
  at times 0 and 5000, which share their callbacks.
\<close>

definition demo_bridge :: bridge where
  "demo_bridge = (new_bridge ''ws://n1:9000'' None False 8000 60 3)
     \<lparr>reqIdInc := 2,
      requests := [(0, \<lparr>r_time = 0, onsuccess = Some 10, onerror = Some 11\<rparr>),
                   (1, \<lparr>r_time = 5000, onsuccess = Some 10, onerror = Some 11\<rparr>)]\<rparr>"

text \<open>A client that was never connected, with the default timeout.\<close>

definition idle_bridge :: bridge where
  "idle_bridge = new_bridge ''ws://n1:9000'' None False 8000 60 3"

section \<open>Codec: round trip\<close>

lemma bytes_word_word_bytes:
  "bytes_word (ucast w) (ucast (drop_bit 8 w)) (ucast (drop_bit 16 w)) (ucast (drop_bit 24 w)) = w"
proof (rule bit_word_eqI)
  fix n :: nat
  assume "n < LENGTH(32)"
  then have "n < 8 \<or> (8 \<le> n \<and> n < 16) \<or> (16 \<le> n \<and> n < 24) \<or> (24 \<le> n \<and> n < 32)"
    by auto
  then show "bit (bytes_word (ucast w) (ucast (drop_bit 8 w)) (ucast (drop_bit 16 w))
                    (ucast (drop_bit 24 w))) n = bit w n"
    unfolding bytes_word_def
    by (auto simp add: bit_simps)
qed

lemma Int32Array_of_buffer: "Int32Array_of (Int32Array_buffer ws) = Some ws"
  by (induction ws) (simp_all add: Int32Array_buffer_def word_bytes_def bytes_word_word_bytes)

lemma pack_of_pack_json: "pack_of (pack_json p) = Some p"
  by (cases "route p"; cases "reqId p"; cases "message p") (simp_all add: pack_json_def)

lemma deserialize_serialize:
  assumes "lib_ok L" "length salt = 4" "length iv = 4"
    and "serialize L salt iv p pw bin = Some w"
  shows "deserialize L w pw = Some p"
  using assms
  by (auto simp: serialize_def deserialize_def lib_ok_def Let_def Int32Array_of_buffer
        pack_of_pack_json split: option.splits if_splits)

lemma serialize_returns:
  "JSON_stringify L (pack_json p) \<noteq> None \<Longrightarrow> \<exists>w. serialize L salt iv p pw bin = Some w"
  by (auto simp: serialize_def Let_def)

subsection \<open>The small library satisfies the laws\<close>

lemma toy_char_word: "char_of (unat (of_nat (of_char c) :: 32 word)) = c"
proof -
  have "(of_char c :: nat) < 256" by simp
  moreover have "(256 :: nat) < 2 ^ 32" by simp
  ultimately have "(of_char c :: nat) < 2 ^ 32" by (rule less_trans)
  then have "unat (of_nat (of_char c) :: 32 word) = of_char c"
    by (simp add: unat_of_nat)
  then show ?thesis by simp
qed

lemma toy_byte_char: "(of_nat (unat b mod 256) :: 8 word) = b"
proof -
  have "unat b < 256"
    using unsigned_less [of b, where ?'a = nat] by simp
  then show ?thesis by simp
qed

lemma toy_aes:
  "map ((\<lambda>w. char_of (unat w)) \<circ> (\<lambda>c. of_nat (of_char c) :: 32 word)) s = s"
  by (simp add: toy_char_word comp_def)

lemma toy_bytes:
  "map ((\<lambda>c. of_nat (of_char c) :: 8 word) \<circ> (\<lambda>b. char_of (unat b))) bs = bs"
  by (simp add: toy_byte_char comp_def)

lemma toy_json:
  "map_of (map (\<lambda>(s, v). (v, s)) toy_table) j = Some s \<Longrightarrow> map_of toy_table s = Some j"
  by (auto simp: toy_table_def split: if_splits)

lemma lib_ok_toy_lib: "lib_ok toy_lib"
  unfolding lib_ok_def
  by (simp add: toy_lib_def toy_json toy_aes toy_bytes Int32Array_of_buffer)

text \<open>
  Claim C1. For every packet, every password setting (none, empty, or a password) and
  both binary settings: when the library's decoders invert its encoders and
  \<open>JSON.stringify\<close> accepts the packet, \<open>serialize\<close> returns a frame and \<open>deserialize\<close> of
  that frame with the same password returns the packet itself (same route, same
  reqId, same message).
\<close>

theorem C1_roundtrip:
  assumes "lib_ok L" and "length salt = 4" and "length iv = 4"
    and "JSON_stringify L (pack_json p) \<noteq> None"
  shows "\<exists>w. serialize L salt iv p pw bin = Some w \<and> deserialize L w pw = Some p"
proof -
  from assms(4) obtain w where w: "serialize L salt iv p pw bin = Some w"
    using serialize_returns by blast
  with assms(1-3) have "deserialize L w pw = Some p"
    by (rule deserialize_serialize)
  with w show ?thesis by blast
qed

theorem C1_roundtrip_witness:
  "lib_ok toy_lib \<and> length [1, 2, 3, 4 :: int32] = 4 \<and> length [5, 6, 7, 8 :: int32] = 4 \<and>
   JSON_stringify toy_lib
     (pack_json \<lparr>route = Some (JStr ''echo''), reqId = Some (JNum 1), message = Some (JStr ''hi'')\<rparr>)
     \<noteq> None \<and>
   (\<exists>w. serialize toy_lib [1, 2, 3, 4] [5, 6, 7, 8]
           \<lparr>route = Some (JStr ''echo''), reqId = Some (JNum 1), message = Some (JStr ''hi'')\<rparr>
           (Some ''p'') True = Some w \<and>
        deserialize toy_lib w (Some ''p'')
          = Some \<lparr>route = Some (JStr ''echo''), reqId = Some (JNum 1), message = Some (JStr ''hi'')\<rparr>)"
proof -
  have j: "JSON_stringify toy_lib
     (pack_json \<lparr>route = Some (JStr ''echo''), reqId = Some (JNum 1), message = Some (JStr ''hi'')\<rparr>)
     \<noteq> None"
    by (simp add: toy_lib_def toy_table_def pack_json_def)
  have l1: "length [1, 2, 3, 4 :: int32] = 4" and l2: "length [5, 6, 7, 8 :: int32] = 4"
    by simp_all
  from C1_roundtrip [OF lib_ok_toy_lib l1 l2 j] lib_ok_toy_lib l1 l2 j
  show ?thesis by blast
qed

section \<open>Basic facts about the server operations\<close>

lemma store_logger [simp]: "store (logger l t s srv) = store srv"
  by (simp add: logger_def)

lemma store_session_send [simp]: "store (session_send sid d srv) = store srv"
  by (simp add: session_send_def)

lemma store_fold_send [simp]: "store (fold (\<lambda>id. session_send id d) xs srv) = store srv"
  by (induction xs arbitrary: srv) simp_all

lemma reqIdList_session_close [simp]:
  "reqIdList (store (session_close sid c srv) x) = reqIdList (store srv x)"
  by (simp add: session_close_def update_session_def)

lemma reqIdList_dispatch:
  "reqIdList (store (state_of (dispatch L salt iv now sid pk srv)) x) = reqIdList (store srv x)"
  by (simp add: dispatch_def Let_def sendHeartick_def pushSession_def pushChannel_def
        broadcast_def update_session_def updateHeart_def split: option.splits slot.splits)

lemma close_attached:
  "s_socket (store srv sid) \<noteq> None \<Longrightarrow>
     session_close sid c (logger l t x srv)
       = srv\<lparr>store := (store srv)(sid := (store srv sid)\<lparr>s_socket := None\<rparr>),
              trace := trace srv @ [Log l t x, SocketClose sid (fst c) (snd c)]\<rparr>"
  by (simp add: session_close_def logger_def update_session_def)

lemma close_detached:
  "s_socket (store srv sid) = None \<Longrightarrow> session_close sid c (logger l t x srv) = logger l t x srv"
  by (simp add: session_close_def logger_def)

section \<open>Decoding failures\<close>

lemma Int32Array_of_None: "Int32Array_of bs = None \<longleftrightarrow> length bs mod 4 \<noteq> 0"
  by (induction bs rule: Int32Array_of.induct) (auto split: option.splits)

lemma deserialize_plain_buffer:
  "\<not> truthy_str pw \<Longrightarrow>
     deserialize L (Buffer bs) pw = Some \<lparr>route = None, reqId = None, message = None\<rparr>"
  by (simp add: deserialize_def)

lemma not_valid_empty: "\<not> valid_pack \<lparr>route = None, reqId = None, message = None\<rparr>"
  by (simp add: valid_pack_def)

lemma pack_of_None: "pack_of j = None \<longleftrightarrow> j = JNull"
  by (cases j) simp_all

lemma pack_of_Some:
  "j \<noteq> JNull \<Longrightarrow>
     pack_of j = Some \<lparr>route = js_get j ''route'', reqId = js_get j ''reqId'',
                       message = js_get j ''message''\<rparr>"
  by (cases j) simp_all

lemma deserialize_plain_text:
  "\<not> truthy_str pw \<Longrightarrow>
     deserialize L (Text s) pw = None \<longleftrightarrow> JSON_parse L s = None \<or> JSON_parse L s = Some JNull"
  by (auto simp add: deserialize_def pack_of_None split: option.splits)

lemma deserialize_plain_json:
  "\<not> truthy_str pw \<Longrightarrow> JSON_parse L s = Some j \<Longrightarrow> deserialize L (Text s) pw = pack_of j"
  by (simp add: deserialize_def)

lemma deserialize_truncated:
  "truthy_str pw \<Longrightarrow> length bs mod 4 \<noteq> 0 \<Longrightarrow> deserialize L (Buffer bs) pw = None"
  using Int32Array_of_None [of bs] by (simp add: deserialize_def)

lemma deserialize_undecryptable:
  "truthy_str pw \<Longrightarrow> Int32Array_of bs = Some ws \<Longrightarrow>
   AES_decrypt L (drop 8 ws) (HmacSHA256 L (take 4 ws) (the pw)) (take 4 (drop 4 ws)) = None \<Longrightarrow>
     deserialize L (Buffer bs) pw = None"
  by (simp add: deserialize_def)

lemma deserialize_not_json:
  "truthy_str pw \<Longrightarrow> Int32Array_of bs = Some ws \<Longrightarrow>
   AES_decrypt L (drop 8 ws) (HmacSHA256 L (take 4 ws) (the pw)) (take 4 (drop 4 ws)) = Some t \<Longrightarrow>
   JSON_parse L t = None \<Longrightarrow>
     deserialize L (Buffer bs) pw = None"
  by (simp add: deserialize_def)

lemma deserialize_buffer_json:
  "truthy_str pw \<Longrightarrow> Int32Array_of bs = Some ws \<Longrightarrow>
   AES_decrypt L (drop 8 ws) (HmacSHA256 L (take 4 ws) (the pw)) (take 4 (drop 4 ws)) = Some t \<Longrightarrow>
   JSON_parse L t = Some j \<Longrightarrow>
     deserialize L (Buffer bs) pw = pack_of j"
  by (simp add: deserialize_def)

lemma deserialize_text_undecryptable:
  "truthy_str pw \<Longrightarrow>
   AES_decrypt L (drop 8 (Base64_parse L s)) (HmacSHA256 L (take 4 (Base64_parse L s)) (the pw))
     (take 4 (drop 4 (Base64_parse L s))) = None \<Longrightarrow>
     deserialize L (Text s) pw = None"
  by (simp add: deserialize_def)

lemma deserialize_text_not_json:
  "truthy_str pw \<Longrightarrow>
   AES_decrypt L (drop 8 (Base64_parse L s)) (HmacSHA256 L (take 4 (Base64_parse L s)) (the pw))
     (take 4 (drop 4 (Base64_parse L s))) = Some t \<Longrightarrow>
   JSON_parse L t = None \<Longrightarrow>
     deserialize L (Text s) pw = None"
  by (simp add: deserialize_def)

lemma deserialize_text_json:
  "truthy_str pw \<Longrightarrow>
   AES_decrypt L (drop 8 (Base64_parse L s)) (HmacSHA256 L (take 4 (Base64_parse L s)) (the pw))
     (take 4 (drop 4 (Base64_parse L s))) = Some t \<Longrightarrow>
   JSON_parse L t = Some j \<Longrightarrow>
     deserialize L (Text s) pw = pack_of j"
  by (simp add: deserialize_def)

lemma onWebSocketMessage_parse_error:
  "deserialize L d (pwd (cfg srv)) = None \<Longrightarrow>
     onWebSocketMessage L salt iv now sid d srv
       = Returned (session_close sid CODE_PARSE (logger ERROR tag (Some sid) srv))"
  by (simp add: onWebSocketMessage_def)

lemma onWebSocketMessage_format_error:
  "deserialize L d (pwd (cfg srv)) = Some pk \<Longrightarrow> \<not> valid_pack pk \<Longrightarrow>
     onWebSocketMessage L salt iv now sid d srv
       = Returned (session_close sid CODE_FORMAT (logger ERROR tag (Some sid) srv))"
  by (simp add: onWebSocketMessage_def)

text \<open>
  Claim C8, as stated, fails: in plaintext mode a non-empty buffer (here the single byte
  1, which is neither empty nor JSON) does not yield a decode failure; it decodes to the
  packet with no field, as the empty buffer does.
\<close>

theorem C8_counterexample:
  "deserialize toy_lib (Buffer [1]) None = Some \<lparr>route = None, reqId = None, message = None\<rparr>"
  by (simp add: deserialize_def)

text \<open>
  Claim C8, amended. In plaintext mode every ArrayBuffer input, empty or not, decodes to
  the packet whose route, reqId and message are all absent; that packet fails the shape
  validation, so the server closes the session with 4002. Every other malformed input
  is a decode failure, whether the frame is an ArrayBuffer or a text: in plaintext mode a
  text on which \<open>JSON.parse\<close> throws or that parses to \<open>null\<close>; in encrypted mode a buffer
  whose length is not a multiple of four (every other buffer is a list of words), a
  ciphertext (taken from the buffer or from the Base64 text) whose decryption throws,
  and a decrypted text on which \<open>JSON.parse\<close> throws or that parses to \<open>null\<close>. In every remaining case the decrypted or received
  text parses to a value \<open>j\<close> other than \<open>null\<close> and the result is the packet of the
  three properties of \<open>j\<close>. On a decode failure the server closes the session with 4001.
  \<open>deserialize\<close> returns on every input: every exception inside it is the result \<open>None\<close>.
\<close>

theorem C8_decoding:
  "(\<not> truthy_str pw \<longrightarrow>
      deserialize L (Buffer bs) pw = Some \<lparr>route = None, reqId = None, message = None\<rparr>) \<and>
   \<not> valid_pack \<lparr>route = None, reqId = None, message = None\<rparr> \<and>
   (\<not> truthy_str (pwd (cfg srv)) \<longrightarrow>
      onWebSocketMessage L salt iv now sid (Buffer bs) srv
        = Returned (session_close sid CODE_FORMAT (logger ERROR tag (Some sid) srv))) \<and>
   (\<not> truthy_str pw \<longrightarrow>
      (deserialize L (Text s) pw = None
         \<longleftrightarrow> JSON_parse L s = None \<or> JSON_parse L s = Some JNull)) \<and>
   (truthy_str pw \<and> length bs mod 4 \<noteq> 0 \<longrightarrow> deserialize L (Buffer bs) pw = None) \<and>
   (length bs mod 4 = 0 \<longrightarrow> (\<exists>ws. Int32Array_of bs = Some ws)) \<and>
   (truthy_str pw \<and> Int32Array_of bs = Some ws \<and>
      AES_decrypt L (drop 8 ws) (HmacSHA256 L (take 4 ws) (the pw)) (take 4 (drop 4 ws)) = None
      \<longrightarrow> deserialize L (Buffer bs) pw = None) \<and>
   (truthy_str pw \<and> Int32Array_of bs = Some ws \<and>
      AES_decrypt L (drop 8 ws) (HmacSHA256 L (take 4 ws) (the pw)) (take 4 (drop 4 ws)) = Some t \<and>
      JSON_parse L t = None
      \<longrightarrow> deserialize L (Buffer bs) pw = None) \<and>
   (truthy_str pw \<and>
      AES_decrypt L (drop 8 (Base64_parse L s)) (HmacSHA256 L (take 4 (Base64_parse L s)) (the pw))
        (take 4 (drop 4 (Base64_parse L s))) = None
      \<longrightarrow> deserialize L (Text s) pw = None) \<and>
   (truthy_str pw \<and>
      AES_decrypt L (drop 8 (Base64_parse L s)) (HmacSHA256 L (take 4 (Base64_parse L s)) (the pw))
        (take 4 (drop 4 (Base64_parse L s))) = Some t \<and>
      JSON_parse L t = None
      \<longrightarrow> deserialize L (Text s) pw = None) \<and>
   (truthy_str pw \<and> Int32Array_of bs = Some ws \<and>
      AES_decrypt L (drop 8 ws) (HmacSHA256 L (take 4 ws) (the pw)) (take 4 (drop 4 ws)) = Some t \<and>
      JSON_parse L t = Some j
      \<longrightarrow> deserialize L (Buffer bs) pw = pack_of j) \<and>
   (truthy_str pw \<and>
      AES_decrypt L (drop 8 (Base64_parse L s)) (HmacSHA256 L (take 4 (Base64_parse L s)) (the pw))
        (take 4 (drop 4 (Base64_parse L s))) = Some t \<and>
      JSON_parse L t = Some j
      \<longrightarrow> deserialize L (Text s) pw = pack_of j) \<and>
   (\<not> truthy_str pw \<and> JSON_parse L s = Some j \<longrightarrow> deserialize L (Text s) pw = pack_of j) \<and>
   pack_of JNull = None \<and>
   (j \<noteq> JNull \<longrightarrow>
      pack_of j = Some \<lparr>route = js_get j ''route'', reqId = js_get j ''reqId'',
                        message = js_get j ''message''\<rparr>) \<and>
   (deserialize L d (pwd (cfg srv)) = None \<longrightarrow>
      onWebSocketMessage L salt iv now sid d srv
        = Returned (session_close sid CODE_PARSE (logger ERROR tag (Some sid) srv)))"
proof (intro conjI impI)
  show "\<not> valid_pack \<lparr>route = None, reqId = None, message = None\<rparr>"
    by (rule not_valid_empty)
next
  assume "\<not> truthy_str (pwd (cfg srv))"
  then have "deserialize L (Buffer bs) (pwd (cfg srv))
               = Some \<lparr>route = None, reqId = None, message = None\<rparr>"
    by (rule deserialize_plain_buffer)
  then show "onWebSocketMessage L salt iv now sid (Buffer bs) srv
               = Returned (session_close sid CODE_FORMAT (logger ERROR tag (Some sid) srv))"
    using not_valid_empty by (rule onWebSocketMessage_format_error)
next
  assume "length bs mod 4 = 0"
  with Int32Array_of_None [of bs] show "\<exists>ws. Int32Array_of bs = Some ws"
    by auto
qed (simp_all add: deserialize_plain_buffer deserialize_plain_text deserialize_truncated
       deserialize_undecryptable deserialize_not_json onWebSocketMessage_parse_error
       deserialize_text_undecryptable deserialize_text_not_json deserialize_buffer_json
       deserialize_text_json deserialize_plain_json pack_of_Some)

theorem C8_decoding_witness:
  "deserialize toy_lib (Buffer []) None = Some \<lparr>route = None, reqId = None, message = None\<rparr> \<and>
   onWebSocketMessage toy_lib [] [] 0 1 (Buffer []) demo_server
     = Returned (session_close 1 CODE_FORMAT (logger ERROR tag (Some 1) demo_server)) \<and>
   deserialize toy_lib (Text ''oops'') None = None \<and>
   onWebSocketMessage toy_lib [] [] 0 1 (Text ''oops'') demo_server
     = Returned (session_close 1 CODE_PARSE (logger ERROR tag (Some 1) demo_server)) \<and>
   deserialize toy_lib (Text ''123'') None = Some \<lparr>route = None, reqId = None, message = None\<rparr> \<and>
   deserialize toy_lib (Buffer [1, 2, 3]) (Some ''p'') = None \<and>
   deserialize (toy_lib\<lparr>AES_decrypt := \<lambda>body key iv. None\<rparr>) (Buffer [1, 2, 3, 4]) (Some ''p'') = None \<and>
   deserialize toy_lib (Buffer [1, 2, 3, 4]) (Some ''p'') = None \<and>
   deserialize (toy_lib\<lparr>AES_decrypt := \<lambda>body key iv. None\<rparr>) (Text ''abcd'') (Some ''p'') = None \<and>
   deserialize toy_lib (Text ''abcd'') (Some ''p'') = None \<and>
   deserialize (toy_lib\<lparr>AES_decrypt := \<lambda>body key iv. Some ''123''\<rparr>) (Text ''abcd'') (Some ''p'')
     = Some \<lparr>route = None, reqId = None, message = None\<rparr> \<and>
   deserialize (toy_lib\<lparr>AES_decrypt := \<lambda>body key iv. Some ''null''\<rparr>) (Buffer [1, 2, 3, 4]) (Some ''p'')
     = None"
proof -
  have plain: "\<not> truthy_str None" "\<not> truthy_str (pwd (cfg demo_server))"
    by (simp_all add: demo_server_def demo_config_def default_config_def new_server_def
          setRouter_def onWebSocketConnection_def Let_def logger_def)
  have parse: "JSON_parse toy_lib ''oops'' = None"
    by (simp add: toy_lib_def toy_table_def)
  have num: "JSON_parse toy_lib ''123'' = Some (JNum 123)" "JNum 123 \<noteq> JNull"
    "js_get (JNum 123) ''route'' = None" "js_get (JNum 123) ''reqId'' = None"
    "js_get (JNum 123) ''message'' = None"
    by (simp_all add: toy_lib_def toy_table_def)
  have enc: "truthy_str (Some ''p'')" "length [1, 2, 3 :: byte] mod 4 \<noteq> 0"
    by simp_all
  have ws: "Int32Array_of [1, 2, 3, 4] = Some [bytes_word 1 2 3 4]"
    by simp
  define L0 where "L0 = toy_lib\<lparr>AES_decrypt := \<lambda>body key iv. None\<rparr>"
  define L1 where "L1 = toy_lib\<lparr>AES_decrypt := \<lambda>body key iv. Some ''123''\<rparr>"
  define L2 where "L2 = toy_lib\<lparr>AES_decrypt := \<lambda>body key iv. Some ''null''\<rparr>"
  have dec0: "AES_decrypt L0 x y z = None" for x y z
    by (simp add: L0_def)
  have dec1: "AES_decrypt L1 x y z = Some ''123''" "JSON_parse L1 ''123'' = Some (JNum 123)" for x y z
    by (simp_all add: L1_def toy_lib_def toy_table_def)
  have dec2: "AES_decrypt L2 x y z = Some ''null''" "JSON_parse L2 ''null'' = Some JNull" for x y z
    by (simp_all add: L2_def toy_lib_def toy_table_def)
  have dec: "AES_decrypt toy_lib (drop 8 [bytes_word 1 2 3 4])
                (HmacSHA256 toy_lib (take 4 [bytes_word 1 2 3 4]) (the (Some ''p'')))
                (take 4 (drop 4 [bytes_word 1 2 3 4])) = Some []"
       and parse2: "JSON_parse toy_lib [] = None"
    by (simp_all add: toy_lib_def toy_table_def)
  have b64: "Base64_parse toy_lib ''abcd'' = [bytes_word 97 98 99 100]"
    by (simp add: toy_lib_def)
  have dect: "AES_decrypt toy_lib (drop 8 (Base64_parse toy_lib ''abcd''))
                (HmacSHA256 toy_lib (take 4 (Base64_parse toy_lib ''abcd'')) (the (Some ''p'')))
                (take 4 (drop 4 (Base64_parse toy_lib ''abcd''))) = Some []"
    unfolding b64 by (simp add: toy_lib_def)
  note a = C8_decoding [where pw = None and L = toy_lib and bs = "[]" and s = "''oops''"
             and srv = demo_server and d = "Text ''oops''" and sid = 1 and salt = "[]"
             and iv = "[]" and now = 0]
  note a' = C8_decoding [where pw = None and L = toy_lib and s = "''123''" and j = "JNum 123"]
  note b = C8_decoding [where pw = "Some ''p''" and L = toy_lib and bs = "[1, 2, 3]"]
  note c = C8_decoding [where pw = "Some ''p''" and L = L0
             and bs = "[1, 2, 3, 4]" and ws = "[bytes_word 1 2 3 4]" and s = "''abcd''"]
  note d = C8_decoding [where pw = "Some ''p''" and L = toy_lib and bs = "[1, 2, 3, 4]"
             and ws = "[bytes_word 1 2 3 4]" and t = "[]" and s = "''abcd''"]
  note e = C8_decoding [where pw = "Some ''p''" and L = L1 and s = "''abcd''" and t = "''123''"
             and j = "JNum 123"]
  note f = C8_decoding [where pw = "Some ''p''" and L = L2 and bs = "[1, 2, 3, 4]"
             and ws = "[bytes_word 1 2 3 4]" and t = "''null''" and j = JNull]
  from a plain parse have 1:
    "deserialize toy_lib (Buffer []) None = Some \<lparr>route = None, reqId = None, message = None\<rparr>"
    "onWebSocketMessage toy_lib [] [] 0 1 (Buffer []) demo_server
       = Returned (session_close 1 CODE_FORMAT (logger ERROR tag (Some 1) demo_server))"
    "deserialize toy_lib (Text ''oops'') None = None"
    by simp_all
  from a plain parse have 2:
    "onWebSocketMessage toy_lib [] [] 0 1 (Text ''oops'') demo_server
       = Returned (session_close 1 CODE_PARSE (logger ERROR tag (Some 1) demo_server))"
    by (simp add: deserialize_plain_text)
  from a' plain(1) num have 3:
    "deserialize toy_lib (Text ''123'') None = Some \<lparr>route = None, reqId = None, message = None\<rparr>"
    by simp
  from b enc have 4: "deserialize toy_lib (Buffer [1, 2, 3]) (Some ''p'') = None"
    by simp
  from c enc(1) ws dec0
  have 5: "deserialize L0 (Buffer [1, 2, 3, 4]) (Some ''p'') = None"
    by simp
  from d enc(1) ws dec parse2
  have 6: "deserialize toy_lib (Buffer [1, 2, 3, 4]) (Some ''p'') = None"
    by simp
  from c enc(1) dec0
  have 7: "deserialize L0 (Text ''abcd'') (Some ''p'') = None"
    by simp
  from d enc(1) dect parse2
  have 8: "deserialize toy_lib (Text ''abcd'') (Some ''p'') = None"
    by simp
  from e enc(1) dec1 num(2-)
  have 9: "deserialize L1 (Text ''abcd'') (Some ''p'')
             = Some \<lparr>route = None, reqId = None, message = None\<rparr>"
    by simp
  from f enc(1) ws dec2
  have 10: "deserialize L2 (Buffer [1, 2, 3, 4]) (Some ''p'') = None"
    by simp
  from 1 2 3 4 5 6 7 8 9 10 show ?thesis
    unfolding L0_def L1_def L2_def by (intro conjI)
qed

section \<open>Duplicate request ids\<close>

lemma onWebSocketMessage_repeat:
  assumes "deserialize L d (pwd (cfg srv)) = Some pk" "valid_pack pk"
    and "num_of (reqId pk) \<in> set (reqIdList (store srv sid))"
  shows "onWebSocketMessage L salt iv now sid d srv
           = Returned (session_close sid CODE_REPEAT (logger ERROR tag (Some sid) srv))"
  using assms by (simp add: onWebSocketMessage_def updateReqId_def)

lemma onWebSocketMessage_novel:
  assumes "deserialize L d (pwd (cfg srv)) = Some pk" "valid_pack pk"
    and "num_of (reqId pk) \<notin> set (reqIdList (store srv sid))"
  shows "onWebSocketMessage L salt iv now sid d srv
           = dispatch L salt iv now sid pk
               (update_session sid (\<lambda>s. s\<lparr>reqIdList :=
                   (if reqIdCache (cfg srv) \<le> int (length (reqIdList (store srv sid)))
                    then drop (nat (reqIdCache (cfg srv) div 2)) (reqIdList (store srv sid))
                    else reqIdList (store srv sid)) @ [num_of (reqId pk)]\<rparr>) srv)"
  using assms by (simp add: onWebSocketMessage_def updateReqId_def update_session_def)

text \<open>
  Claim C4. For a well-formed incoming packet of session \<open>sid\<close>: when its reqId is
  already in the session's ring and the session still has its socket, the server logs
  the error and closes the session with 4003, and does nothing else (no handler is
  called, nothing is sent, the ring is unchanged); when the session's socket is already
  gone only the log line remains. When the reqId is new, the packet goes on to the
  route dispatch and the ring becomes the old ring, without its first
  \<open>floor(reqIdCache / 2)\<close> entries when it already held at least \<open>reqIdCache\<close> ids,
  followed by the new id. The default \<open>reqIdCache\<close> is 32.
\<close>

theorem C4_duplicate_reqId:
  assumes "deserialize L d (pwd (cfg srv)) = Some pk" and "valid_pack pk"
  shows
   "(num_of (reqId pk) \<in> set (reqIdList (store srv sid)) \<and> s_socket (store srv sid) \<noteq> None \<longrightarrow>
       onWebSocketMessage L salt iv now sid d srv
         = Returned (srv\<lparr>store := (store srv)(sid := (store srv sid)\<lparr>s_socket := None\<rparr>),
                         trace := trace srv @ [Log ERROR tag (Some sid),
                                               SocketClose sid 4003 ''repeat error'']\<rparr>)) \<and>
    (num_of (reqId pk) \<in> set (reqIdList (store srv sid)) \<and> s_socket (store srv sid) = None \<longrightarrow>
       onWebSocketMessage L salt iv now sid d srv = Returned (logger ERROR tag (Some sid) srv)) \<and>
    (num_of (reqId pk) \<notin> set (reqIdList (store srv sid)) \<longrightarrow>
       onWebSocketMessage L salt iv now sid d srv
         = dispatch L salt iv now sid pk
             (update_session sid (\<lambda>s. s\<lparr>reqIdList :=
                 (if reqIdCache (cfg srv) \<le> int (length (reqIdList (store srv sid)))
                  then drop (nat (reqIdCache (cfg srv) div 2)) (reqIdList (store srv sid))
                  else reqIdList (store srv sid)) @ [num_of (reqId pk)]\<rparr>) srv) \<and>
       reqIdList (store (state_of (onWebSocketMessage L salt iv now sid d srv)) sid)
         = (if reqIdCache (cfg srv) \<le> int (length (reqIdList (store srv sid)))
            then drop (nat (reqIdCache (cfg srv) div 2)) (reqIdList (store srv sid))
            else reqIdList (store srv sid)) @ [num_of (reqId pk)]) \<and>
    reqIdCache default_config = 32"
proof (intro conjI impI)
  assume "num_of (reqId pk) \<in> set (reqIdList (store srv sid)) \<and> s_socket (store srv sid) \<noteq> None"
  then show "onWebSocketMessage L salt iv now sid d srv
         = Returned (srv\<lparr>store := (store srv)(sid := (store srv sid)\<lparr>s_socket := None\<rparr>),
                         trace := trace srv @ [Log ERROR tag (Some sid),
                                               SocketClose sid 4003 ''repeat error'']\<rparr>)"
    using onWebSocketMessage_repeat [OF assms, of sid salt iv now]
    by (simp add: close_attached CODE_REPEAT_def)
next
  assume "num_of (reqId pk) \<in> set (reqIdList (store srv sid)) \<and> s_socket (store srv sid) = None"
  then show "onWebSocketMessage L salt iv now sid d srv = Returned (logger ERROR tag (Some sid) srv)"
    using onWebSocketMessage_repeat [OF assms, of sid salt iv now]
    by (simp add: close_detached)
next
  assume novel: "num_of (reqId pk) \<notin> set (reqIdList (store srv sid))"
  from assms novel show step: "onWebSocketMessage L salt iv now sid d srv
         = dispatch L salt iv now sid pk
             (update_session sid (\<lambda>s. s\<lparr>reqIdList :=
                 (if reqIdCache (cfg srv) \<le> int (length (reqIdList (store srv sid)))
                  then drop (nat (reqIdCache (cfg srv) div 2)) (reqIdList (store srv sid))
                  else reqIdList (store srv sid)) @ [num_of (reqId pk)]\<rparr>) srv)"
    by (rule onWebSocketMessage_novel)
  show "reqIdList (store (state_of (onWebSocketMessage L salt iv now sid d srv)) sid)
         = (if reqIdCache (cfg srv) \<le> int (length (reqIdList (store srv sid)))
            then drop (nat (reqIdCache (cfg srv) div 2)) (reqIdList (store srv sid))
            else reqIdList (store srv sid)) @ [num_of (reqId pk)]"
    unfolding step reqIdList_dispatch by (simp add: update_session_def)
next
  show "reqIdCache default_config = 32"
    by (simp add: default_config_def)
qed

lemmas eval_defs =
  demo_server_def demo_server2_def demo_config_def default_config_def new_server_def
  setRouter_def onWebSocketConnection_def new_session_def blank_session_def Let_def logger_def
  update_session_def echo_frame_def echo_pack_def toy_lib_def toy_table_def deserialize_def
  valid_pack_def tag_def

lemma demo_server_echo:
  "deserialize toy_lib echo_frame (pwd (cfg demo_server)) = Some echo_pack"
  "valid_pack echo_pack"
  "num_of (reqId echo_pack) = 1"
  by (simp_all add: eval_defs)

lemma demo_server_once_eq:
  "demo_server_once =
     demo_server\<lparr>store := (store demo_server)(1 := (store demo_server 1)\<lparr>reqIdList := [1]\<rparr>),
                  trace := trace demo_server @ [Log DEBUG tag (Some 1), RouterCall ''echo'' 1 echo_pack]\<rparr>"
  by (simp add: demo_server_once_def onWebSocketMessage_def updateReqId_def dispatch_def
        ROUTE_HEARTICK_def ROUTE_INNERP2P_def ROUTE_INNERGRP_def ROUTE_INNERALL_def
        ROUTE_INNERRMC_def eval_defs)

theorem C4_duplicate_reqId_witness:
  "deserialize toy_lib echo_frame (pwd (cfg demo_server)) = Some echo_pack \<and>
   valid_pack echo_pack \<and>
   num_of (reqId echo_pack) \<notin> set (reqIdList (store demo_server 1)) \<and>
   reqIdList (store (state_of (onWebSocketMessage toy_lib [] [] 0 1 echo_frame demo_server)) 1) = [1] \<and>
   deserialize toy_lib echo_frame (pwd (cfg demo_server_once)) = Some echo_pack \<and>
   num_of (reqId echo_pack) \<in> set (reqIdList (store demo_server_once 1)) \<and>
   s_socket (store demo_server_once 1) \<noteq> None \<and>
   onWebSocketMessage toy_lib [] [] 0 1 echo_frame demo_server_once
     = Returned (demo_server_once
         \<lparr>store := (store demo_server_once)(1 := (store demo_server_once 1)\<lparr>s_socket := None\<rparr>),
          trace := trace demo_server_once @ [Log ERROR tag (Some 1),
                                             SocketClose 1 4003 ''repeat error'']\<rparr>)"
proof -
  have novel: "num_of (reqId echo_pack) \<notin> set (reqIdList (store demo_server 1))"
    by (simp add: eval_defs)
  have cache: "\<not> reqIdCache (cfg demo_server) \<le> int (length (reqIdList (store demo_server 1)))"
    by (simp add: eval_defs)
  have ring0: "reqIdList (store demo_server 1) = []"
    by (simp add: eval_defs)
  have again: "deserialize toy_lib echo_frame (pwd (cfg demo_server_once)) = Some echo_pack"
    using demo_server_echo(1) by (simp add: demo_server_once_eq)
  have dup: "num_of (reqId echo_pack) \<in> set (reqIdList (store demo_server_once 1))"
    by (simp add: demo_server_once_eq demo_server_echo(3))
  have sock: "s_socket (store demo_server_once 1) \<noteq> None"
    by (simp add: demo_server_once_eq) (simp add: eval_defs)
  from C4_duplicate_reqId [OF demo_server_echo(1,2), of 1 "[]" "[]" 0] novel
  have "reqIdList (store (state_of (onWebSocketMessage toy_lib [] [] 0 1 echo_frame demo_server)) 1)
          = (if reqIdCache (cfg demo_server) \<le> int (length (reqIdList (store demo_server 1)))
             then drop (nat (reqIdCache (cfg demo_server) div 2)) (reqIdList (store demo_server 1))
             else reqIdList (store demo_server 1)) @ [num_of (reqId echo_pack)]"
    by blast
  with cache ring0
  have first: "reqIdList (store (state_of (onWebSocketMessage toy_lib [] [] 0 1 echo_frame demo_server)) 1) = [1]"
    by (simp add: demo_server_echo(3))
  from C4_duplicate_reqId [OF again demo_server_echo(2), of 1 "[]" "[]" 0] dup sock
  have second: "onWebSocketMessage toy_lib [] [] 0 1 echo_frame demo_server_once
     = Returned (demo_server_once
         \<lparr>store := (store demo_server_once)(1 := (store demo_server_once 1)\<lparr>s_socket := None\<rparr>),
          trace := trace demo_server_once @ [Log ERROR tag (Some 1),
                                             SocketClose 1 4003 ''repeat error'']\<rparr>)"
    by blast
  from demo_server_echo(1,2) novel first again dup sock second show ?thesis
    by blast
qed

section \<open>The group route\<close>

lemma dispatch_group:
  assumes "route pk = Some (JStr ROUTE_INNERGRP)" and "message pk = Some m"
    and "validateInnerData L srv m" and "json_uid L (js_get m ''tid'') = Some g"
  shows "dispatch L salt iv now sid pk srv
           = Returned (pushChannel L salt iv g (js_get m ''route'') (js_get m ''message'')
                        (logger DEBUG tag (Some sid) srv))"
  using assms
  by (simp add: dispatch_def ROUTE_HEARTICK_def ROUTE_INNERP2P_def ROUTE_INNERGRP_def)

lemma dispatch_dollar_group:
  assumes "route pk = Some (JStr ''$innerGRP$'')" and "''$innerGRP$'' \<notin> routerMap srv"
  shows "dispatch L salt iv now sid pk srv
           = Returned (session_close sid CODE_ROUTE (logger ERROR tag (Some sid) srv))"
  using assms
  by (simp add: dispatch_def ROUTE_HEARTICK_def ROUTE_INNERP2P_def ROUTE_INNERGRP_def
        ROUTE_INNERALL_def ROUTE_INNERRMC_def)

lemmas grp_defs =
  grp_server_def cluster_server_def grp_frame_def demo_server2_def demo_server_def demo_config_def
  default_config_def new_server_def setRouter_def onWebSocketConnection_def new_session_def
  blank_session_def joinChannel_def prop_lookup_def Object_prototype_def
  session_joinChannel_def key_uid_def Let_def logger_def
  update_session_def toy_lib_def toy_table_def deserialize_def valid_pack_def tag_def
  onWebSocketMessage_def updateReqId_def dispatch_def ROUTE_HEARTICK_def ROUTE_INNERP2P_def
  ROUTE_INNERGRP_def ROUTE_INNERALL_def ROUTE_INNERRMC_def session_close_def CODE_ROUTE_def
  validateInnerData_def getMd5_def sign_text_def pushChannel_def serialize_def pack_json_def
  session_send_def

text \<open>
  Claim C2 does not hold of the code: \<open>RouteCode.ROUTE_INNERGRP\<close> is \<open>$innerGRP\<close>, without
  the closing \<open>$\<close> that the five other reserved routes have. A validly signed packet on
  the route \<open>$innerGRP$\<close> is treated as a user route (here no handler is registered for
  it, so the session is closed with 4006, and nothing is pushed to the channel), the
  same packet on \<open>$innerGRP\<close> is pushed to the two members of the channel, and
  \<open>pushClusterChannel\<close> sends its envelope on \<open>$innerGRP\<close>.
\<close>

theorem C2_innerGRP_route:
  "ROUTE_INNERGRP = ''$innerGRP'' \<and> last ROUTE_INNERGRP \<noteq> CHR ''$'' \<and>
   ROUTE_INNERGRP \<noteq> ''$innerGRP$'' \<and>
   trace (state_of (onWebSocketMessage toy_lib [] [] 0 1 (grp_frame ''$innerGRP$'' ''2'') grp_server))
     = trace grp_server @ [Log ERROR tag (Some 1), SocketClose 1 4006 ''route error''] \<and>
   trace (state_of (onWebSocketMessage toy_lib [] [] 0 1 (grp_frame ''$innerGRP'' ''3'') grp_server))
     = trace grp_server @
         [Log DEBUG tag (Some 1),
          SocketSend 1 (Some (Text ''{\"route\":\"evt\",\"message\":\"x\"}'')),
          SocketSend 2 (Some (Text ''{\"route\":\"evt\",\"message\":\"x\"}'')),
          Log DEBUG ''pushChannel:'' None] \<and>
   pushClusterChannel toy_lib ''w'' ''chat'' (key_uid ''g'') ''evt'' (Some (JStr ''x'')) None
       cluster_server
     = Returned (cluster_server\<lparr>trace := trace cluster_server @
         [PeerRequest ''ws://n1:9000'' ''$innerGRP''
            \<lparr>in_tid = Some (key_uid ''g''), in_route = ''evt'', in_message = Some (JStr ''x''),
             in_word = ''w'', in_sign = ''md5:evtws''\<rparr>,
          Log DEBUG ''pushClusterChannel:'' None]\<rparr>)"
proof (intro conjI)
  show "trace (state_of (onWebSocketMessage toy_lib [] [] 0 1 (grp_frame ''$innerGRP$'' ''2'') grp_server))
     = trace grp_server @ [Log ERROR tag (Some 1), SocketClose 1 4006 ''route error'']"
    by (simp add: grp_defs del: One_nat_def)
  show "trace (state_of (onWebSocketMessage toy_lib [] [] 0 1 (grp_frame ''$innerGRP'' ''3'') grp_server))
     = trace grp_server @
         [Log DEBUG tag (Some 1),
          SocketSend 1 (Some (Text ''{\"route\":\"evt\",\"message\":\"x\"}'')),
          SocketSend 2 (Some (Text ''{\"route\":\"evt\",\"message\":\"x\"}'')),
          Log DEBUG ''pushChannel:'' None]"
    by (simp add: grp_defs del: One_nat_def)
  show "pushClusterChannel toy_lib ''w'' ''chat'' (key_uid ''g'') ''evt'' (Some (JStr ''x'')) None
       cluster_server
     = Returned (cluster_server\<lparr>trace := trace cluster_server @
         [PeerRequest ''ws://n1:9000'' ''$innerGRP''
            \<lparr>in_tid = Some (key_uid ''g''), in_route = ''evt'', in_message = Some (JStr ''x''),
             in_word = ''w'', in_sign = ''md5:evtws''\<rparr>,
          Log DEBUG ''pushClusterChannel:'' None]\<rparr>)"
    by (simp add: pushClusterChannel_def generateInnerData_def grp_defs del: One_nat_def)
qed (simp_all add: ROUTE_INNERGRP_def)

section \<open>Signed envelopes\<close>

text \<open>
  Claim C9. \<open>_validateInnerData\<close> reads only the route, the word and the sign of an
  envelope (and the server's secret): two envelopes that agree on these three fields
  get the same verdict, whatever their message and tid; so an envelope that verifies
  still verifies after its message and its tid have been replaced.
\<close>

theorem C9_validate_ignores_payload:
  "(js_get d1 ''route'' = js_get d2 ''route'' \<and> js_get d1 ''word'' = js_get d2 ''word'' \<and>
    js_get d1 ''sign'' = js_get d2 ''sign''
      \<longrightarrow> validateInnerData L srv d1 = validateInnerData L srv d2) \<and>
   (validateInnerData L srv (JObj kvs)
      \<longrightarrow> validateInnerData L srv
            (JObj (AList.update ''tid'' t (AList.update ''message'' m kvs))))"
proof (intro conjI impI)
  assume "js_get d1 ''route'' = js_get d2 ''route'' \<and> js_get d1 ''word'' = js_get d2 ''word'' \<and>
    js_get d1 ''sign'' = js_get d2 ''sign''"
  then show "validateInnerData L srv d1 = validateInnerData L srv d2"
    by (simp add: validateInnerData_def)
next
  assume "validateInnerData L srv (JObj kvs)"
  then show "validateInnerData L srv (JObj (AList.update ''tid'' t (AList.update ''message'' m kvs)))"
    by (simp add: validateInnerData_def update_conv')
qed

lemma secret_demo_server: "secret (cfg demo_server) = Some ''s''"
  by (simp add: demo_server_def demo_config_def default_config_def new_server_def setRouter_def
        onWebSocketConnection_def Let_def logger_def)

theorem C9_validate_ignores_payload_witness:
  "validateInnerData toy_lib demo_server
     (JObj [(''tid'', JStr ''g''), (''route'', JStr ''evt''), (''message'', JStr ''x''),
            (''word'', JStr ''w''), (''sign'', JStr ''md5:evtws'')]) \<and>
   validateInnerData toy_lib demo_server
     (JObj [(''tid'', JStr ''victim''), (''route'', JStr ''evt''), (''message'', JStr ''forged''),
            (''word'', JStr ''w''), (''sign'', JStr ''md5:evtws'')]) \<and>
   validateInnerData toy_lib demo_server
     (JObj (AList.update ''tid'' (JStr ''victim'') (AList.update ''message'' (JStr ''forged'')
        [(''tid'', JStr ''g''), (''route'', JStr ''evt''), (''message'', JStr ''x''),
         (''word'', JStr ''w''), (''sign'', JStr ''md5:evtws'')])))"
proof -
  define d1 where "d1 = JObj [(''tid'', JStr ''g''), (''route'', JStr ''evt''),
    (''message'', JStr ''x''), (''word'', JStr ''w''), (''sign'', JStr ''md5:evtws'')]"
  define d2 where "d2 = JObj [(''tid'', JStr ''victim''), (''route'', JStr ''evt''),
    (''message'', JStr ''forged''), (''word'', JStr ''w''), (''sign'', JStr ''md5:evtws'')]"
  have v: "validateInnerData toy_lib demo_server d1"
    by (simp add: d1_def validateInnerData_def getMd5_def sign_text_def toy_lib_def
          secret_demo_server)
  have same: "js_get d1 ''route'' = js_get d2 ''route'' \<and> js_get d1 ''word'' = js_get d2 ''word'' \<and>
              js_get d1 ''sign'' = js_get d2 ''sign''"
    by (simp add: d1_def d2_def)
  from C9_validate_ignores_payload [of d1 d2 toy_lib demo_server] same
  have "validateInnerData toy_lib demo_server d1 = validateInnerData toy_lib demo_server d2"
    by blast
  with v have v2: "validateInnerData toy_lib demo_server d2"
    by simp
  from C9_validate_ignores_payload [of d1 d2 toy_lib demo_server _ "JStr ''victim''" "JStr ''forged''"]
    v [unfolded d1_def]
  have "validateInnerData toy_lib demo_server
     (JObj (AList.update ''tid'' (JStr ''victim'') (AList.update ''message'' (JStr ''forged'')
        [(''tid'', JStr ''g''), (''route'', JStr ''evt''), (''message'', JStr ''x''),
         (''word'', JStr ''w''), (''sign'', JStr ''md5:evtws'')])))"
    by blast
  with v v2 show ?thesis
    unfolding d1_def d2_def by blast
qed

section \<open>UID binding\<close>

lemma quitChannel_keeps [simp]:
  "sessionMap (state_of (quitChannel sid g srv)) = sessionMap srv"
  "s_uid (store (state_of (quitChannel sid g srv)) x) = s_uid (store srv x)"
  by (simp_all add: quitChannel_def Let_def logger_def update_session_def session_quitChannel_def
      split: slot.splits)

lemma eachChannel_quit_induct:
  assumes "P srv" and "\<And>s k. P s \<Longrightarrow> P (state_of (quitChannel sid (key_uid k) s))"
  shows "P (state_of (eachChannel_quit sid ks srv))"
  using assms(1)
proof (induction ks arbitrary: srv)
  case Nil
  then show ?case by simp
next
  case (Cons k ks)
  from Cons.prems have step: "P (state_of (quitChannel sid (key_uid k) srv))"
    by (rule assms(2))
  show ?case
  proof (cases "quitChannel sid (key_uid k) srv")
    case (Returned s')
    with step have "P s'" by simp
    then have "P (state_of (eachChannel_quit sid ks s'))" by (rule Cons.IH)
    with Returned show ?thesis by simp
  next
    case (Threw e s')
    with step show ?thesis by simp
  qed
qed

lemma eachChannel_quit_keeps:
  "sessionMap (state_of (eachChannel_quit sid ks srv)) = sessionMap srv \<and>
   s_uid (store (state_of (eachChannel_quit sid ks srv)) x) = s_uid (store srv x)"
  by (rule eachChannel_quit_induct) simp_all

lemma quitChannel_returns:
  "toStr g \<notin> set Object_prototype \<Longrightarrow>
     quitChannel sid g srv = Returned (state_of (quitChannel sid g srv))"
  by (simp add: quitChannel_def prop_lookup_def Let_def split: option.splits)

lemma eachChannel_quit_returns:
  "set ks \<inter> set Object_prototype = {} \<Longrightarrow>
     eachChannel_quit sid ks srv = Returned (state_of (eachChannel_quit sid ks srv))"
proof (induction ks arbitrary: srv)
  case Nil
  show ?case by simp
next
  case (Cons k ks)
  from Cons.prems have k: "toStr (key_uid k) \<notin> set Object_prototype"
    and ks: "set ks \<inter> set Object_prototype = {}"
    by (auto simp add: key_uid_def)
  from k have "quitChannel sid (key_uid k) srv = Returned (state_of (quitChannel sid (key_uid k) srv))"
    by (rule quitChannel_returns)
  moreover from ks have "eachChannel_quit sid ks (state_of (quitChannel sid (key_uid k) srv))
      = Returned (state_of (eachChannel_quit sid ks (state_of (quitChannel sid (key_uid k) srv))))"
    by (rule Cons.IH)
  ultimately show ?case
    by (cases "quitChannel sid (key_uid k) srv") simp_all
qed

text \<open>
  The close handler: when the enumeration throws the registry of uids is left as it was;
  when the handler returns it has unbound the session.
\<close>

lemma onSocketClose_Threw:
  assumes "onSocketClose sid c r srv = Threw e s"
  shows "sessionMap s = sessionMap srv"
proof -
  define s2 where "s2 = (if sessionCloseListener srv
      then (logger INFO ''on websocket close:'' (Some sid) srv)
             \<lparr>trace := trace (logger INFO ''on websocket close:'' (Some sid) srv)
                  @ [SessionCloseListener sid c r]\<rparr>
      else logger INFO ''on websocket close:'' (Some sid) srv)"
  have s2: "sessionMap s2 = sessionMap srv" "s_channel (store s2 sid) = s_channel (store srv sid)"
    by (simp_all add: s2_def logger_def)
  from assms have "eachChannel_quit sid (s_channel (store srv sid)) s2 = Threw e s"
    by (simp add: onSocketClose_def Let_def s2_def logger_def split: outcome.splits if_splits)
  with eachChannel_quit_keeps [of sid "s_channel (store srv sid)" s2] s2 show ?thesis
    by simp
qed

lemma onSocketClose_Returned:
  assumes "onSocketClose sid c r srv = Returned s"
  shows "sessionMap s =
           (if isBinded (store srv sid)
            then AList.delete (toStr (the (s_uid (store srv sid)))) (sessionMap srv)
            else sessionMap srv)"
proof -
  define s2 where "s2 = (if sessionCloseListener srv
      then (logger INFO ''on websocket close:'' (Some sid) srv)
             \<lparr>trace := trace (logger INFO ''on websocket close:'' (Some sid) srv)
                  @ [SessionCloseListener sid c r]\<rparr>
      else logger INFO ''on websocket close:'' (Some sid) srv)"
  have s2: "sessionMap s2 = sessionMap srv" "s_channel (store s2 sid) = s_channel (store srv sid)"
    "s_uid (store s2 sid) = s_uid (store srv sid)"
    by (simp_all add: s2_def logger_def)
  from assms obtain s3 where s3: "eachChannel_quit sid (s_channel (store srv sid)) s2 = Returned s3"
    and s: "s = (unbindUid sid s3)\<lparr>socketMap := removeAll sid (socketMap (unbindUid sid s3))\<rparr>"
    by (auto simp add: onSocketClose_def Let_def s2_def logger_def split: outcome.splits if_splits)
  from eachChannel_quit_keeps [of sid "s_channel (store srv sid)" s2 sid] s3 s2
  have keep: "sessionMap s3 = sessionMap srv" "s_uid (store s3 sid) = s_uid (store srv sid)"
    by simp_all
  show ?thesis
    unfolding s using keep
    by (simp add: unbindUid_def isBinded_def Let_def logger_def update_session_def)
qed

lemma onSocketClose_returns:
  assumes "set (s_channel (store srv sid)) \<inter> set Object_prototype = {}"
  shows "\<exists>s. onSocketClose sid c r srv = Returned s"
proof -
  define s2 where "s2 = (if sessionCloseListener srv
      then (logger INFO ''on websocket close:'' (Some sid) srv)
             \<lparr>trace := trace (logger INFO ''on websocket close:'' (Some sid) srv)
                  @ [SessionCloseListener sid c r]\<rparr>
      else logger INFO ''on websocket close:'' (Some sid) srv)"
  from assms have "eachChannel_quit sid (s_channel (store srv sid)) s2
      = Returned (state_of (eachChannel_quit sid (s_channel (store srv sid)) s2))"
    by (rule eachChannel_quit_returns)
  then obtain s3 where "eachChannel_quit sid (s_channel (store srv sid)) s2 = Returned s3"
    by blast
  then show ?thesis
    by (simp add: onSocketClose_def Let_def s2_def logger_def split: if_splits)
qed

lemmas bind_defs =
  bindUid_def unbindUid_def session_close_def logger_def update_session_def isBinded_def
  session_bindUid_def session_unbindUid_def Let_def CODE_NEWBIND_def update_conv' delete_conv'

lemma bindUid_displace_trace:
  assumes "A \<noteq> B" and "map_of (sessionMap srv) (toStr u) = Some A"
    and "s_socket (store srv A) \<noteq> None"
  shows "trace (bindUid B u True srv) =
           trace srv @ (if isBinded (store srv A) then [Log DEBUG ''unbindUid:'' (Some A)] else []) @
             [SocketClose A 4009 ''newbind error''] @
             (if isBinded (store srv B) then [Log DEBUG ''unbindUid:'' (Some B)] else []) @
             [Log DEBUG ''bindUid:'' (Some B)]"
  using assms by (simp add: bind_defs split: option.splits)

lemma bindUid_displace_state:
  assumes "A \<noteq> B" and "map_of (sessionMap srv) (toStr u) = Some A"
    and "s_socket (store srv A) \<noteq> None"
  shows "s_socket (store (bindUid B u True srv) A) = None"
    and "map_of (sessionMap (bindUid B u True srv)) (toStr u) = Some B"
    and "s_uid (store (bindUid B u True srv) B) = Some u"
    and "isBinded (store srv A) \<Longrightarrow> s_uid (store (bindUid B u True srv) A) = None"
    and "\<not> isBinded (store srv A) \<Longrightarrow>
           s_uid (store (bindUid B u True srv) A) = s_uid (store srv A)"
    and "s_uid (store srv B) = Some ub \<Longrightarrow> truthy ub \<Longrightarrow> toStr ub \<noteq> toStr u \<Longrightarrow>
           map_of (sessionMap (bindUid B u True srv)) (toStr ub) = None"
    and "s_uid (store srv B) = Some ub \<Longrightarrow> \<not> truthy ub \<Longrightarrow> toStr ub \<noteq> toStr u \<Longrightarrow>
         s_uid (store srv A) = Some u \<Longrightarrow>
           map_of (sessionMap (bindUid B u True srv)) (toStr ub) = map_of (sessionMap srv) (toStr ub)"
  using assms by (simp_all add: bind_defs split: option.splits)

lemma bindUid_displaced_unbound:
  assumes "A \<noteq> B" and "map_of (sessionMap srv) (toStr u) = Some A"
  shows "\<not> isBinded (store (bindUid B u True srv) A)"
  using assms by (simp add: bind_defs split: option.splits)

lemma bindUid_displace_entry:
  assumes "A \<noteq> B" and "map_of (sessionMap srv) (toStr u) = Some A"
  shows "map_of (sessionMap (bindUid B u True srv)) (toStr u) = Some B"
  using assms by (simp add: bind_defs split: option.splits)

lemma bindUid_displace_close:
  assumes "A \<noteq> B" and "map_of (sessionMap srv) (toStr u) = Some A"
  shows "map_of (sessionMap (state_of (onSocketClose A c r (bindUid B u True srv)))) (toStr u) = Some B"
proof (cases "onSocketClose A c r (bindUid B u True srv)")
  case (Returned s)
  then have "sessionMap s = sessionMap (bindUid B u True srv)"
    using onSocketClose_Returned [of A c r "bindUid B u True srv" s]
      bindUid_displaced_unbound [OF assms] by simp
  with Returned bindUid_displace_entry [OF assms] show ?thesis by simp
next
  case (Threw e s)
  then have "sessionMap s = sessionMap (bindUid B u True srv)"
    by (rule onSocketClose_Threw)
  with Threw bindUid_displace_entry [OF assms] show ?thesis by simp
qed

lemmas bound_defs =
  bound_server_def user_u_def user_v_def demo_server2_def demo_server_def demo_config_def
  default_config_def new_server_def setRouter_def onWebSocketConnection_def new_session_def
  blank_session_def

lemmas falsy_defs =
  falsy_server_def uid_zero_def uid_empty_def demo_server2_def demo_server_def demo_config_def
  default_config_def new_server_def setRouter_def onWebSocketConnection_def new_session_def
  blank_session_def

text \<open>
  What \<open>bindUid(B, u, true)\<close> does when the registry maps \<open>u\<close> to a different session
  \<open>A\<close> that has its socket. \<open>A\<close> is closed with 4009. When \<open>A\<close> \<open>isBinded\<close> (its uid is
  truthy) it is unbound first: \<open>unbindUid\<close> is logged before the close and \<open>A\<close>'s uid is
  cleared; otherwise \<open>A\<close> is closed without being unbound and keeps its uid. A truthy
  prior uid of \<open>B\<close> is unbound and its registry entry removed; a falsy one keeps its
  entry. Afterwards the registry maps the string form of \<open>u\<close> to \<open>B\<close> and \<open>B\<close>'s uid is
  \<open>u\<close>. The handler of \<open>A\<close>'s later close event, whether it returns or throws, leaves
  the entry of \<open>u\<close> with \<open>B\<close>.
\<close>

lemma bindUid_displaces:
  assumes "A \<noteq> B" and "map_of (sessionMap srv) (toStr u) = Some A"
    and "s_socket (store srv A) \<noteq> None"
  shows "trace (bindUid B u True srv) =
           trace srv @ (if isBinded (store srv A) then [Log DEBUG ''unbindUid:'' (Some A)] else []) @
             [SocketClose A 4009 ''newbind error''] @
             (if isBinded (store srv B) then [Log DEBUG ''unbindUid:'' (Some B)] else []) @
             [Log DEBUG ''bindUid:'' (Some B)] \<and>
         (isBinded (store srv A) \<longrightarrow> s_uid (store (bindUid B u True srv) A) = None) \<and>
         (\<not> isBinded (store srv A) \<longrightarrow>
            s_uid (store (bindUid B u True srv) A) = s_uid (store srv A)) \<and>
         s_socket (store (bindUid B u True srv) A) = None \<and>
         (\<forall>ub. s_uid (store srv B) = Some ub \<and> truthy ub \<and> toStr ub \<noteq> toStr u \<longrightarrow>
               map_of (sessionMap (bindUid B u True srv)) (toStr ub) = None) \<and>
         (\<forall>ub. s_uid (store srv B) = Some ub \<and> \<not> truthy ub \<and> toStr ub \<noteq> toStr u \<and>
               s_uid (store srv A) = Some u \<longrightarrow>
               map_of (sessionMap (bindUid B u True srv)) (toStr ub)
                 = map_of (sessionMap srv) (toStr ub)) \<and>
         map_of (sessionMap (bindUid B u True srv)) (toStr u) = Some B \<and>
         s_uid (store (bindUid B u True srv) B) = Some u \<and>
         map_of (sessionMap (state_of (onSocketClose A c r (bindUid B u True srv)))) (toStr u)
           = Some B"
  using bindUid_displace_trace [OF assms] bindUid_displace_state [OF assms]
    bindUid_displace_close [OF assms(1,2)]
  by blast

text \<open>
  Claim C3 does not hold of the code when a uid is falsy: \<open>isBinded\<close> is \<open>!!uid\<close>, so
  \<open>unbindUid\<close> returns early for a session whose uid is the number \<open>0\<close> or the empty
  string. Session 1 holds the uid \<open>0\<close> and session 2 holds the empty string, both
  installed by \<open>bindUid\<close>. The call \<open>bindUid(2, 0, true)\<close> closes session 1 with 4009
  without unbinding it (no \<open>unbindUid\<close> is logged before the close and session 1 keeps
  its uid), and the prior uid of session 2 is not unbound: the registry still maps the
  empty string to session 2, whose uid is now \<open>0\<close>. With the truthy uids \<open>u\<close> and \<open>v\<close> in
  their place the same call does what the claim says: session 1 is unbound and then
  closed, and the entry of session 2 under \<open>v\<close> is removed.
\<close>

theorem C3_bindUid_falsy_uid:
  "map_of (sessionMap falsy_server) (toStr uid_zero) = Some 1 \<and>
   s_uid (store falsy_server 1) = Some uid_zero \<and>
   s_socket (store falsy_server 1) \<noteq> None \<and>
   s_uid (store falsy_server 2) = Some uid_empty \<and>
   map_of (sessionMap falsy_server) (toStr uid_empty) = Some 2 \<and>
   trace (bindUid 2 uid_zero True falsy_server) =
     trace falsy_server @ [SocketClose 1 4009 ''newbind error'', Log DEBUG ''bindUid:'' (Some 2)] \<and>
   s_uid (store (bindUid 2 uid_zero True falsy_server) 1) = Some uid_zero \<and>
   s_uid (store (bindUid 2 uid_zero True falsy_server) 2) = Some uid_zero \<and>
   map_of (sessionMap (bindUid 2 uid_zero True falsy_server)) (toStr uid_zero) = Some 2 \<and>
   map_of (sessionMap (bindUid 2 uid_zero True falsy_server)) (toStr uid_empty) = Some 2 \<and>
   map_of (sessionMap bound_server) (toStr user_u) = Some 1 \<and>
   s_uid (store bound_server 2) = Some user_v \<and>
   trace (bindUid 2 user_u True bound_server) =
     trace bound_server @
       [Log DEBUG ''unbindUid:'' (Some 1), SocketClose 1 4009 ''newbind error'',
        Log DEBUG ''unbindUid:'' (Some 2), Log DEBUG ''bindUid:'' (Some 2)] \<and>
   s_uid (store (bindUid 2 user_u True bound_server) 1) = None \<and>
   map_of (sessionMap (bindUid 2 user_u True bound_server)) (toStr user_u) = Some 2 \<and>
   map_of (sessionMap (bindUid 2 user_u True bound_server)) (toStr user_v) = None"
proof -
  have falsy:
    "map_of (sessionMap falsy_server) (toStr uid_zero) = Some 1"
    "s_uid (store falsy_server 1) = Some uid_zero"
    "s_socket (store falsy_server 1) \<noteq> None"
    "s_uid (store falsy_server 2) = Some uid_empty"
    "map_of (sessionMap falsy_server) (toStr uid_empty) = Some 2"
    "trace (bindUid 2 uid_zero True falsy_server) =
       trace falsy_server @ [SocketClose 1 4009 ''newbind error'', Log DEBUG ''bindUid:'' (Some 2)]"
    "s_uid (store (bindUid 2 uid_zero True falsy_server) 1) = Some uid_zero"
    "s_uid (store (bindUid 2 uid_zero True falsy_server) 2) = Some uid_zero"
    "map_of (sessionMap (bindUid 2 uid_zero True falsy_server)) (toStr uid_zero) = Some 2"
    "map_of (sessionMap (bindUid 2 uid_zero True falsy_server)) (toStr uid_empty) = Some 2"
    by (simp_all add: falsy_defs bind_defs del: One_nat_def)
  have bound:
    "map_of (sessionMap bound_server) (toStr user_u) = Some 1"
    "s_uid (store bound_server 2) = Some user_v"
    "trace (bindUid 2 user_u True bound_server) =
       trace bound_server @
         [Log DEBUG ''unbindUid:'' (Some 1), SocketClose 1 4009 ''newbind error'',
          Log DEBUG ''unbindUid:'' (Some 2), Log DEBUG ''bindUid:'' (Some 2)]"
    "s_uid (store (bindUid 2 user_u True bound_server) 1) = None"
    "map_of (sessionMap (bindUid 2 user_u True bound_server)) (toStr user_u) = Some 2"
    "map_of (sessionMap (bindUid 2 user_u True bound_server)) (toStr user_v) = None"
    by (simp_all add: bound_defs bind_defs del: One_nat_def)
  from falsy bound show ?thesis
    by (intro conjI)
qed



section \<open>Channels\<close>

lemma channelMap_logger [simp]: "channelMap (logger l t s srv) = channelMap srv"
  by (simp add: logger_def)

lemma channelMap_update_session [simp]: "channelMap (update_session sid f srv) = channelMap srv"
  by (simp add: update_session_def)

lemma channelMap_session_send [simp]: "channelMap (session_send sid d srv) = channelMap srv"
  by (simp add: session_send_def)

lemma channelMap_session_close [simp]: "channelMap (session_close sid c srv) = channelMap srv"
  by (simp add: session_close_def)

lemma channelMap_fold_send [simp]:
  "channelMap (fold (\<lambda>id. session_send id d) xs srv) = channelMap srv"
  by (induction xs arbitrary: srv) simp_all

lemma channelMap_fold_update [simp]:
  "channelMap (fold (\<lambda>id. update_session id f) xs srv) = channelMap srv"
  by (induction xs arbitrary: srv) simp_all

lemma channelMap_unbindUid [simp]: "channelMap (unbindUid sid srv) = channelMap srv"
  by (simp add: unbindUid_def Let_def)

lemma channelMap_bindUid [simp]: "channelMap (bindUid sid u b srv) = channelMap srv"
  by (cases "map_of (sessionMap srv) (toStr u)") (simp_all add: bindUid_def Let_def)

lemma channelMap_connection [simp]: "channelMap (onWebSocketConnection ip now srv) = channelMap srv"
  by (simp add: onWebSocketConnection_def Let_def)

lemma channelMap_dispatch [simp]:
  "channelMap (state_of (dispatch L salt iv now sid pk srv)) = channelMap srv"
  by (simp add: dispatch_def Let_def sendHeartick_def pushSession_def pushChannel_def
        broadcast_def split: option.splits slot.splits)

lemma channelMap_message [simp]:
  "channelMap (state_of (onWebSocketMessage L salt iv now sid d srv)) = channelMap srv"
  by (simp add: onWebSocketMessage_def split: option.splits prod.splits bool.splits)

lemma channelMap_registration [simp]:
  "channelMap (setRouter rt srv) = channelMap srv"
  "channelMap (setRemote rt srv) = channelMap srv"
  "channelMap (setListeners b srv) = channelMap srv"
  by (simp_all add: setRouter_def setRemote_def setListeners_def)

subsection \<open>Reading the registry\<close>

lemma prop_lookup_Own: "prop_lookup m k = Own v \<longleftrightarrow> map_of m k = Some v"
  by (simp add: prop_lookup_def split: option.splits)

lemma prop_lookup_Absent:
  "prop_lookup m k = Absent \<longleftrightarrow> map_of m k = None \<and> k \<notin> set Object_prototype"
  by (simp add: prop_lookup_def split: option.splits)


subsection \<open>What the operations do to the registry\<close>

lemma join_Inherited:
  "prop_lookup (channelMap srv) (toStr gid) = Inherited \<Longrightarrow>
     joinChannel sid gid srv = Threw TypeError srv"
  by (simp add: joinChannel_def)

lemma quit_Inherited:
  "prop_lookup (channelMap srv) (toStr gid) = Inherited \<Longrightarrow>
     quitChannel sid gid srv = Threw TypeError srv"
  by (simp add: quitChannel_def)

lemma join_returns:
  "prop_lookup (channelMap srv) (toStr gid) \<noteq> Inherited \<Longrightarrow>
     joinChannel sid gid srv = Returned (state_of (joinChannel sid gid srv))"
  by (simp add: joinChannel_def Let_def split: slot.splits)

lemma quit_returns:
  "prop_lookup (channelMap srv) (toStr gid) \<noteq> Inherited \<Longrightarrow>
     quitChannel sid gid srv = Returned (state_of (quitChannel sid gid srv))"
  by (simp add: quitChannel_def Let_def split: slot.splits)

lemma channelMap_join_new:
  "prop_lookup (channelMap srv) (toStr gid) = Absent \<Longrightarrow>
     channelMap (state_of (joinChannel sid gid srv))
       = AList.update (toStr gid) \<lparr>count = 1, sessions = [sid]\<rparr> (channelMap srv)"
  by (simp add: joinChannel_def Let_def)

lemma channelMap_join_member:
  "prop_lookup (channelMap srv) (toStr gid) = Own ch \<Longrightarrow> sid \<in> set (sessions ch) \<Longrightarrow>
     channelMap (state_of (joinChannel sid gid srv)) = AList.update (toStr gid) ch (channelMap srv)"
  by (simp add: joinChannel_def Let_def)

lemma channelMap_join_other:
  "prop_lookup (channelMap srv) (toStr gid) = Own ch \<Longrightarrow> sid \<notin> set (sessions ch) \<Longrightarrow>
     channelMap (state_of (joinChannel sid gid srv))
       = AList.update (toStr gid) (ch\<lparr>sessions := insort sid (sessions ch), count := count ch + 1\<rparr>)
           (channelMap srv)"
  by (simp add: joinChannel_def Let_def)

lemma channelMap_quit_none:
  "prop_lookup (channelMap srv) (toStr gid) = Absent \<Longrightarrow> quitChannel sid gid srv = Returned srv"
  by (simp add: quitChannel_def)

lemma channelMap_quit_last:
  "prop_lookup (channelMap srv) (toStr gid) = Own ch \<Longrightarrow> sid \<in> set (sessions ch) \<Longrightarrow>
   count ch - 1 \<le> 0 \<Longrightarrow>
     channelMap (state_of (quitChannel sid gid srv)) = AList.delete (toStr gid) (channelMap srv)"
  by (simp add: quitChannel_def Let_def)

lemma channelMap_quit_member:
  "prop_lookup (channelMap srv) (toStr gid) = Own ch \<Longrightarrow> sid \<in> set (sessions ch) \<Longrightarrow>
   \<not> count ch - 1 \<le> 0 \<Longrightarrow>
     channelMap (state_of (quitChannel sid gid srv))
       = AList.update (toStr gid) (ch\<lparr>sessions := remove1 sid (sessions ch), count := count ch - 1\<rparr>)
           (channelMap srv)"
  by (simp add: quitChannel_def Let_def)

lemma channelMap_quit_other:
  "prop_lookup (channelMap srv) (toStr gid) = Own ch \<Longrightarrow> sid \<notin> set (sessions ch) \<Longrightarrow>
   \<not> count ch \<le> 0 \<Longrightarrow>
     channelMap (state_of (quitChannel sid gid srv)) = AList.update (toStr gid) ch (channelMap srv)"
  by (simp add: quitChannel_def Let_def)

lemma channelMap_delete:
  "channelMap (deleteChannel gid srv) = AList.delete (toStr gid) (channelMap srv)"
proof (cases "map_of (channelMap srv) (toStr gid)")
  case None
  then have "toStr gid \<notin> fst ` set (channelMap srv)"
    by (simp add: map_of_eq_None_iff)
  with None show ?thesis by (simp add: deleteChannel_def prop_lookup_def)
next
  case (Some ch)
  then show ?thesis by (simp add: deleteChannel_def prop_lookup_def Let_def)
qed

subsection \<open>The counters\<close>











subsection \<open>The names\<close>

lemma names_ok_same: "names_ok srv \<Longrightarrow> channelMap srv' = channelMap srv \<Longrightarrow> names_ok srv'"
  by (simp add: names_ok_def)

lemma names_ok_update:
  "names_ok srv \<Longrightarrow> k \<notin> set Object_prototype \<Longrightarrow>
   channelMap srv' = AList.update k v (channelMap srv) \<Longrightarrow> names_ok srv'"
  by (auto simp add: names_ok_def update_conv')

lemma names_ok_remove:
  "names_ok srv \<Longrightarrow> channelMap srv' = AList.delete k (channelMap srv) \<Longrightarrow> names_ok srv'"
  by (simp add: names_ok_def delete_conv')

lemma names_ok_Own:
  "names_ok srv \<Longrightarrow> prop_lookup (channelMap srv) k = Own ch \<Longrightarrow> k \<notin> set Object_prototype"
  by (auto simp add: names_ok_def prop_lookup_Own)


lemma names_ok_join: "names_ok srv \<Longrightarrow> names_ok (state_of (joinChannel sid gid srv))"
proof -
  assume ok: "names_ok srv"
  show ?thesis
  proof (cases "prop_lookup (channelMap srv) (toStr gid)")
    case Absent
    then have "toStr gid \<notin> set Object_prototype"
      by (simp add: prop_lookup_Absent)
    with ok show ?thesis
      using channelMap_join_new [OF Absent] by (rule names_ok_update)
  next
    case (Own ch)
    with ok have n: "toStr gid \<notin> set Object_prototype"
      by (rule names_ok_Own)
    show ?thesis
    proof (cases "sid \<in> set (sessions ch)")
      case True
      from ok n channelMap_join_member [OF Own True] show ?thesis
        by (rule names_ok_update)
    next
      case False
      from ok n channelMap_join_other [OF Own False] show ?thesis
        by (rule names_ok_update)
    qed
  next
    case Inherited
    then have "joinChannel sid gid srv = Threw TypeError srv"
      by (rule join_Inherited)
    with ok show ?thesis by simp
  qed
qed

lemma names_ok_quit: "names_ok srv \<Longrightarrow> names_ok (state_of (quitChannel sid gid srv))"
proof -
  assume ok: "names_ok srv"
  show ?thesis
  proof (cases "prop_lookup (channelMap srv) (toStr gid)")
    case Absent
    then show ?thesis using ok by (simp add: channelMap_quit_none)
  next
    case Inherited
    then show ?thesis using ok by (simp add: quit_Inherited)
  next
    case (Own ch)
    with ok have n: "toStr gid \<notin> set Object_prototype"
      by (rule names_ok_Own)
    show ?thesis
    proof (cases "sid \<in> set (sessions ch)")
      case True
      show ?thesis
      proof (cases "count ch - 1 \<le> 0")
        case le: True
        from ok channelMap_quit_last [OF Own True le] show ?thesis
          by (rule names_ok_remove)
      next
        case gt: False
        from ok n channelMap_quit_member [OF Own True gt] show ?thesis
          by (rule names_ok_update)
      qed
    next
      case False
      show ?thesis
      proof (cases "count ch \<le> 0")
        case True
        with Own False have "channelMap (state_of (quitChannel sid gid srv))
            = AList.delete (toStr gid) (channelMap srv)"
          by (simp add: quitChannel_def Let_def)
        with ok show ?thesis
          by (rule names_ok_remove)
      next
        case pos: False
        from ok n channelMap_quit_other [OF Own False pos] show ?thesis
          by (rule names_ok_update)
      qed
    qed
  qed
qed

lemma names_ok_delete: "names_ok srv \<Longrightarrow> names_ok (deleteChannel gid srv)"
  by (rule names_ok_remove [OF _ channelMap_delete])

subsection \<open>The close handler\<close>

lemma onSocketClose_invariant:
  assumes "P srv"
    and same: "\<And>s s'. P s \<Longrightarrow> channelMap s' = channelMap s \<Longrightarrow> P s'"
    and quit: "\<And>s k. P s \<Longrightarrow> P (state_of (quitChannel sid (key_uid k) s))"
  shows "P (state_of (onSocketClose sid c r srv))"
proof -
  define s1 where "s1 = logger INFO ''on websocket close:'' (Some sid) srv"
  define s2 where "s2 = (if sessionCloseListener s1
                         then s1\<lparr>trace := trace s1 @ [SessionCloseListener sid c r]\<rparr> else s1)"
  define out where "out = eachChannel_quit sid (s_channel (store s2 sid)) s2"
  have "channelMap s2 = channelMap srv"
    by (simp add: s2_def s1_def)
  with assms(1) have "P s2"
    by (rule same)
  then have 3: "P (state_of out)"
    unfolding out_def using quit by (rule eachChannel_quit_induct)
  have unfold: "onSocketClose sid c r srv =
      (case out of
         Threw e s3 \<Rightarrow> Threw e s3
       | Returned s3 \<Rightarrow>
           Returned ((unbindUid sid s3)\<lparr>socketMap := removeAll sid (socketMap (unbindUid sid s3))\<rparr>))"
    by (simp add: onSocketClose_def Let_def out_def s2_def s1_def split: outcome.splits)
  show ?thesis
  proof (cases out)
    case (Returned s3)
    with 3 have "P s3" by simp
    then have "P ((unbindUid sid s3)\<lparr>socketMap := removeAll sid (socketMap (unbindUid sid s3))\<rparr>)"
      by (rule same) simp
    with Returned unfold show ?thesis by simp
  next
    case (Threw e s3)
    with 3 unfold show ?thesis by simp
  qed
qed


lemma names_ok_close: "names_ok srv \<Longrightarrow> names_ok (state_of (onSocketClose sid c r srv))"
  by (rule onSocketClose_invariant) (simp_all add: names_ok_same names_ok_quit)

subsection \<open>Every reachable state\<close>


lemma reachable_names_ok: "reachable srv \<Longrightarrow> names_ok srv"
proof (induction rule: reachable.induct)
  case (init c)
  show ?case by (simp add: names_ok_def new_server_def)
next
  case (connection srv ip now)
  from connection.IH show ?case by (rule names_ok_same) simp
next
  case (join srv sid gid)
  from join.IH show ?case by (rule names_ok_join)
next
  case (quit srv sid gid)
  from quit.IH show ?case by (rule names_ok_quit)
next
  case (delete srv gid)
  from delete.IH show ?case by (rule names_ok_delete)
next
  case (close srv sid c r)
  from close.IH show ?case by (rule names_ok_close)
next
  case (bind srv sid u closeold)
  from bind.IH show ?case by (rule names_ok_same) simp
next
  case (unbind srv sid)
  from unbind.IH show ?case by (rule names_ok_same) simp
next
  case (message srv L salt iv now sid d)
  from message.IH show ?case by (rule names_ok_same) simp
next
  case (router srv rt)
  from router.IH show ?case by (rule names_ok_same) simp
next
  case (remote srv rt)
  from remote.IH show ?case by (rule names_ok_same) simp
next
  case (listeners srv b)
  from listeners.IH show ?case by (rule names_ok_same) simp
qed

subsection \<open>The groups a session has joined\<close>

text \<open>
  The names in a session's \<open>_channel\<close> are names of channels the server created for it,
  so none of them is the name of an inherited property.
\<close>

lemma s_channel_logger [simp]: "s_channel (store (logger l t s srv) x) = s_channel (store srv x)"
  by (simp add: logger_def)

lemma s_channel_session_close [simp]:
  "s_channel (store (session_close sid c srv) x) = s_channel (store srv x)"
  by (simp add: session_close_def update_session_def)

lemma s_channel_unbindUid [simp]:
  "s_channel (store (unbindUid sid srv) x) = s_channel (store srv x)"
  by (simp add: unbindUid_def Let_def update_session_def session_unbindUid_def logger_def)

lemma s_channel_bindUid [simp]:
  "s_channel (store (bindUid sid u b srv) x) = s_channel (store srv x)"
  by (cases "map_of (sessionMap srv) (toStr u)")
     (simp_all add: bindUid_def Let_def update_session_def session_bindUid_def)

lemma s_channel_dispatch [simp]:
  "s_channel (store (state_of (dispatch L salt iv now sid pk srv)) x) = s_channel (store srv x)"
  by (simp add: dispatch_def Let_def sendHeartick_def pushSession_def pushChannel_def
        broadcast_def update_session_def updateHeart_def split: option.splits slot.splits)

lemma s_channel_message [simp]:
  "s_channel (store (state_of (onWebSocketMessage L salt iv now sid d srv)) x)
     = s_channel (store srv x)"
  by (simp add: onWebSocketMessage_def updateReqId_def
        split: option.splits prod.splits bool.splits if_splits)

lemma s_channel_registration [simp]:
  "s_channel (store (setRouter rt srv) x) = s_channel (store srv x)"
  "s_channel (store (setRemote rt srv) x) = s_channel (store srv x)"
  "s_channel (store (setListeners b srv) x) = s_channel (store srv x)"
  by (simp_all add: setRouter_def setRemote_def setListeners_def)

lemma s_channel_connection:
  "set (s_channel (store (onWebSocketConnection ip now srv) x)) \<subseteq> set (s_channel (store srv x))"
  by (simp add: onWebSocketConnection_def Let_def new_session_def)

lemma s_channel_join:
  assumes "names_ok srv"
  shows "set (s_channel (store (state_of (joinChannel sid gid srv)) x))
           \<subseteq> set (s_channel (store srv x)) \<union> ({toStr gid} - set Object_prototype)"
proof (cases "prop_lookup (channelMap srv) (toStr gid)")
  case Absent
  then have "toStr gid \<notin> set Object_prototype"
    by (simp add: prop_lookup_Absent)
  with Absent show ?thesis
    by (auto simp add: joinChannel_def Let_def update_session_def session_joinChannel_def)
next
  case (Own ch)
  with assms have "toStr gid \<notin> set Object_prototype"
    by (rule names_ok_Own)
  with Own show ?thesis
    by (auto simp add: joinChannel_def Let_def update_session_def session_joinChannel_def)
next
  case Inherited
  then show ?thesis
    by (simp add: join_Inherited)
qed

lemma s_channel_quit:
  "set (s_channel (store (state_of (quitChannel sid gid srv)) x)) \<subseteq> set (s_channel (store srv x))"
  by (auto simp add: quitChannel_def Let_def update_session_def session_quitChannel_def
      split: slot.splits)

lemma s_channel_fold_quit:
  "set (s_channel (store (fold (\<lambda>id. update_session id (session_quitChannel gid)) xs srv) x))
     \<subseteq> set (s_channel (store srv x))"
proof (induction xs arbitrary: srv)
  case Nil
  show ?case by simp
next
  case (Cons a xs)
  have "set (s_channel (store (update_session a (session_quitChannel gid) srv) x))
          \<subseteq> set (s_channel (store srv x))"
    by (auto simp add: update_session_def session_quitChannel_def)
  with Cons.IH [of "update_session a (session_quitChannel gid) srv"] show ?case
    by auto
qed

lemma s_channel_delete:
  "set (s_channel (store (deleteChannel gid srv) x)) \<subseteq> set (s_channel (store srv x))"
  using s_channel_fold_quit [of gid _ srv x]
  by (simp add: deleteChannel_def Let_def split: slot.splits)

lemma s_channel_eachChannel_quit:
  "set (s_channel (store (state_of (eachChannel_quit sid ks srv)) x)) \<subseteq> set (s_channel (store srv x))"
proof (rule eachChannel_quit_induct)
  show "set (s_channel (store srv x)) \<subseteq> set (s_channel (store srv x))"
    by simp
next
  fix s :: server and k
  assume "set (s_channel (store s x)) \<subseteq> set (s_channel (store srv x))"
  with s_channel_quit [of sid "key_uid k" s x]
  show "set (s_channel (store (state_of (quitChannel sid (key_uid k) s)) x))
          \<subseteq> set (s_channel (store srv x))"
    by (rule subset_trans)
qed

lemma s_channel_close:
  "set (s_channel (store (state_of (onSocketClose sid c r srv)) x)) \<subseteq> set (s_channel (store srv x))"
proof -
  define s1 where "s1 = logger INFO ''on websocket close:'' (Some sid) srv"
  define s2 where "s2 = (if sessionCloseListener s1
                         then s1\<lparr>trace := trace s1 @ [SessionCloseListener sid c r]\<rparr> else s1)"
  define out where "out = eachChannel_quit sid (s_channel (store s2 sid)) s2"
  have s2: "s_channel (store s2 x) = s_channel (store srv x)"
    by (simp add: s2_def s1_def)
  have 3: "set (s_channel (store (state_of out) x)) \<subseteq> set (s_channel (store srv x))"
    unfolding out_def using s_channel_eachChannel_quit [of sid _ s2 x] s2 by simp
  have unfold: "onSocketClose sid c r srv =
      (case out of
         Threw e s3 \<Rightarrow> Threw e s3
       | Returned s3 \<Rightarrow>
           Returned ((unbindUid sid s3)\<lparr>socketMap := removeAll sid (socketMap (unbindUid sid s3))\<rparr>))"
    by (simp add: onSocketClose_def Let_def out_def s2_def s1_def split: outcome.splits)
  from 3 show ?thesis
    unfolding unfold by (cases out) simp_all
qed

lemma reachable_session_names:
  "reachable srv \<Longrightarrow> set (s_channel (store srv x)) \<inter> set Object_prototype = {}"
proof (induction arbitrary: x rule: reachable.induct)
  case (init c)
  show ?case by (simp add: new_server_def blank_session_def)
next
  case (connection srv ip now)
  with s_channel_connection [of ip now srv x] show ?case by blast
next
  case (join srv sid gid)
  from join.hyps have "names_ok srv"
    by (rule reachable_names_ok)
  from s_channel_join [OF this, of sid gid x] join.IH [of x] show ?case by blast
next
  case (quit srv sid gid)
  with s_channel_quit [of sid gid srv x] show ?case by blast
next
  case (delete srv gid)
  with s_channel_delete [of gid srv x] show ?case by blast
next
  case (close srv sid c r)
  with s_channel_close [of sid c r srv x] show ?case by blast
next
  case (bind srv sid u closeold)
  then show ?case by simp
next
  case (unbind srv sid)
  then show ?case by simp
next
  case (message srv L salt iv now sid d)
  then show ?case by simp
next
  case (router srv rt)
  then show ?case by simp
next
  case (remote srv rt)
  then show ?case by simp
next
  case (listeners srv b)
  then show ?case by simp
qed

text \<open>So the close handler returns in every reachable state.\<close>

lemma reachable_close_returns:
  "reachable srv \<Longrightarrow> \<exists>s. onSocketClose sid c r srv = Returned s"
  by (rule onSocketClose_returns) (rule reachable_session_names)

subsection \<open>Creation, removal and repeated joins\<close>















section \<open>Bridge client: the timeout sweep\<close>

lemma map_of_fold_delete:
  "map_of (fold AList.delete ks al) k = (if k \<in> set ks then None else map_of al k)"
  by (induction ks arbitrary: al) (simp_all add: delete_conv')

lemma filter_callError:
  "filter (request_event k) (callError k' rq resp) = (if k = k' then callError k' rq resp else [])"
  by (simp add: callError_def split: option.splits)

lemma sweep_events_absent:
  "k \<notin> fst ` set al \<Longrightarrow>
     filter (request_event k) (concat (map (\<lambda>(k, rq). callError k rq resp) (filter P al))) = []"
  by (induction al) (auto simp add: filter_callError)

lemma sweep_events:
  "distinct (map fst al) \<Longrightarrow> map_of al k = Some rq \<Longrightarrow>
     filter (request_event k) (concat (map (\<lambda>(k, rq). callError k rq resp) (filter P al)))
       = (if P (k, rq) then callError k rq resp else [])"
proof (induction al)
  case Nil
  then show ?case by simp
next
  case (Cons a al)
  obtain k' rq' where a: "a = (k', rq')" by (cases a)
  show ?case
  proof (cases "k' = k")
    case True
    with Cons.prems a have rq: "rq' = rq" and notin: "k \<notin> fst ` set al" by auto
    from notin have "filter (request_event k) (concat (map (\<lambda>(k, rq). callError k rq resp) (filter P al))) = []"
      by (rule sweep_events_absent)
    with True a rq show ?thesis by (simp add: filter_callError)
  next
    case False
    with Cons a show ?thesis by (simp add: filter_callError)
  qed
qed

lemma sweep_keys:
  assumes "distinct (map fst al)" and "map_of al k = Some rq"
  shows "k \<in> set (map fst (filter P al)) \<longleftrightarrow> P (k, rq)"
proof
  assume "k \<in> set (map fst (filter P al))"
  then obtain rq' where in_al: "(k, rq') \<in> set al" and P: "P (k, rq')" by auto
  from assms(1) in_al have "map_of al k = Some rq'" by (rule map_of_is_SomeI)
  with assms(2) P show "P (k, rq)" by simp
next
  assume P: "P (k, rq)"
  from assms(2) have "(k, rq) \<in> set al" by (rule map_of_SomeD)
  with P have "(k, rq) \<in> set (filter P al)" by simp
  then show "k \<in> set (map fst (filter P al))" by force
qed

lemma no_request_event_send [simp]: "filter (request_event k) (sendPackData L salt iv pk b) = []"
  by (simp add: sendPackData_def split: option.splits)

lemma no_request_event_open [simp]: "filter (request_event k) (snd (safeOpen b)) = []"
  by (simp add: safeOpen_def safeClose_def Let_def split_beta)

lemma requests_safeOpen [simp]: "requests (fst (safeOpen b)) = requests b"
  by (simp add: safeOpen_def safeClose_def Let_def split_beta)

lemma requests_keepalive [simp]: "requests (fst (keepalive L salt iv now2 b)) = requests b"
  by (simp add: keepalive_def Let_def split_beta)

lemma events_keepalive [simp]: "filter (request_event k) (snd (keepalive L salt iv now2 b)) = []"
  by (simp add: keepalive_def Let_def split_beta)

lemma timed_out_timerInc [simp]: "timed_out now (b\<lparr>timerInc := n\<rparr>) = timed_out now b"
  by (rule ext) (simp add: timed_out_def)

lemma tick_requests:
  "requests (fst (onTimerTick L salt iv now now2 b))
     = fold AList.delete (map fst (filter (timed_out now b) (requests b))) (requests b)"
  by (simp add: onTimerTick_def sweep_def Let_def split_beta)

lemma tick_events:
  "filter (request_event k) (snd (onTimerTick L salt iv now now2 b))
     = filter (request_event k)
         (concat (map (\<lambda>(k, rq). callError k rq gateway_timeout) (filter (timed_out now b) (requests b))))"
  by (simp add: onTimerTick_def sweep_def Let_def split_beta)

lemma tick_sweep_expired:
  assumes "distinct (map fst (requests b))" and "map_of (requests b) k = Some rq"
    and "b_timeout b < now - r_time rq"
  shows "map_of (requests (fst (onTimerTick L salt iv now now2 b))) k = None"
    and "filter (request_event k) (snd (onTimerTick L salt iv now now2 b))
           = callError k rq gateway_timeout"
  using assms(3) sweep_keys [OF assms(1,2), of "timed_out now b"]
    sweep_events [OF assms(1,2), of gateway_timeout "timed_out now b"]
  by (simp_all add: tick_requests tick_events map_of_fold_delete timed_out_def)

lemma tick_sweep_pending:
  assumes "distinct (map fst (requests b))" and "map_of (requests b) k = Some rq"
    and "\<not> b_timeout b < now - r_time rq"
  shows "map_of (requests (fst (onTimerTick L salt iv now now2 b))) k = Some rq"
    and "filter (request_event k) (snd (onTimerTick L salt iv now now2 b)) = []"
  using assms(2,3) sweep_keys [OF assms(1,2), of "timed_out now b"]
    sweep_events [OF assms(1,2), of gateway_timeout "timed_out now b"]
  by (simp_all add: tick_requests tick_events map_of_fold_delete timed_out_def)

lemma distinct_fold_delete:
  "distinct (map fst al) \<Longrightarrow> distinct (map fst (fold AList.delete ks al))"
  by (induction ks arbitrary: al) (simp_all add: distinct_delete)

lemma tick_keeps_distinct:
  "distinct (map fst (requests b)) \<Longrightarrow>
     distinct (map fst (requests (fst (onTimerTick L salt iv now now2 b))))"
  by (simp add: tick_requests distinct_fold_delete)

lemma callError_504:
  "callError k rq gateway_timeout
     = (case onerror rq of
          None \<Rightarrow> []
        | Some cb \<Rightarrow> [RequestError k cb \<lparr>code = 504, rdata = Some (JStr ''Gateway Timeout'')\<rparr>])"
  by (simp add: callError_def gateway_timeout_def)

text \<open>
  Claim C5. On a tick at time \<open>now\<close>, for every pending request \<open>rq\<close> stored under key
  \<open>k\<close>: when its age \<open>now - r_time rq\<close> exceeds the timeout, the entry is gone after the
  tick and the callbacks invoked for \<open>k\<close> during the tick are exactly one call of its error
  callback with the response \<open>{code: 504, data: "Gateway Timeout"}\<close> (none when the
  request has no error callback); when its age is at most the timeout, the entry is
  unchanged and no callback is invoked for \<open>k\<close>.
\<close>

theorem C5_timeout_sweep:
  assumes "distinct (map fst (requests b))" and "map_of (requests b) k = Some rq"
  shows "(b_timeout b < now - r_time rq \<longrightarrow>
            map_of (requests (fst (onTimerTick L salt iv now now2 b))) k = None \<and>
            (\<forall>cb. onerror rq = Some cb \<longrightarrow>
               filter (request_event k) (snd (onTimerTick L salt iv now now2 b))
                 = [RequestError k cb \<lparr>code = 504, rdata = Some (JStr ''Gateway Timeout'')\<rparr>]) \<and>
            (onerror rq = None \<longrightarrow>
               filter (request_event k) (snd (onTimerTick L salt iv now now2 b)) = [])) \<and>
         (\<not> b_timeout b < now - r_time rq \<longrightarrow>
            map_of (requests (fst (onTimerTick L salt iv now now2 b))) k = Some rq \<and>
            filter (request_event k) (snd (onTimerTick L salt iv now now2 b)) = [])"
proof (intro conjI impI allI)
  fix cb
  assume "b_timeout b < now - r_time rq" and "onerror rq = Some cb"
  with tick_sweep_expired(2) [OF assms, of now L salt iv now2]
  show "filter (request_event k) (snd (onTimerTick L salt iv now now2 b))
          = [RequestError k cb \<lparr>code = 504, rdata = Some (JStr ''Gateway Timeout'')\<rparr>]"
    by (simp add: callError_504)
next
  assume "b_timeout b < now - r_time rq" and "onerror rq = None"
  with tick_sweep_expired(2) [OF assms, of now L salt iv now2]
  show "filter (request_event k) (snd (onTimerTick L salt iv now now2 b)) = []"
    by (simp add: callError_504)
next
  assume "b_timeout b < now - r_time rq"
  with assms show "map_of (requests (fst (onTimerTick L salt iv now now2 b))) k = None"
    by (rule tick_sweep_expired(1))
next
  assume "\<not> b_timeout b < now - r_time rq"
  with assms show "map_of (requests (fst (onTimerTick L salt iv now now2 b))) k = Some rq"
    by (rule tick_sweep_pending(1))
next
  assume "\<not> b_timeout b < now - r_time rq"
  with assms show "filter (request_event k) (snd (onTimerTick L salt iv now now2 b)) = []"
    by (rule tick_sweep_pending(2))
qed

lemma demo_bridge_fields:
  "requests demo_bridge = [(0, \<lparr>r_time = 0, onsuccess = Some 10, onerror = Some 11\<rparr>),
                           (1, \<lparr>r_time = 5000, onsuccess = Some 10, onerror = Some 11\<rparr>)]"
  "b_timeout demo_bridge = 8000"
  by (simp_all add: demo_bridge_def new_bridge_def)

theorem C5_timeout_sweep_witness:
  "distinct (map fst (requests demo_bridge)) \<and>
   map_of (requests demo_bridge) 0 = Some \<lparr>r_time = 0, onsuccess = Some 10, onerror = Some 11\<rparr> \<and>
   b_timeout demo_bridge < 9000 - 0 \<and>
   map_of (requests (fst (onTimerTick toy_lib [] [] 9000 9000 demo_bridge))) 0 = None \<and>
   filter (request_event 0) (snd (onTimerTick toy_lib [] [] 9000 9000 demo_bridge))
     = [RequestError 0 11 \<lparr>code = 504, rdata = Some (JStr ''Gateway Timeout'')\<rparr>] \<and>
   map_of (requests demo_bridge) 1 = Some \<lparr>r_time = 5000, onsuccess = Some 10, onerror = Some 11\<rparr> \<and>
   \<not> b_timeout demo_bridge < 9000 - 5000 \<and>
   map_of (requests (fst (onTimerTick toy_lib [] [] 9000 9000 demo_bridge))) 1
     = Some \<lparr>r_time = 5000, onsuccess = Some 10, onerror = Some 11\<rparr> \<and>
   filter (request_event 1) (snd (onTimerTick toy_lib [] [] 9000 9000 demo_bridge)) = []"
proof -
  define rq0 where "rq0 = \<lparr>r_time = 0, onsuccess = Some (10 :: nat), onerror = Some (11 :: nat)\<rparr>"
  define rq1 where "rq1 = \<lparr>r_time = 5000, onsuccess = Some (10 :: nat), onerror = Some (11 :: nat)\<rparr>"
  have d: "distinct (map fst (requests demo_bridge))"
    by (simp add: demo_bridge_fields)
  have r0: "map_of (requests demo_bridge) 0 = Some rq0"
    and r1: "map_of (requests demo_bridge) 1 = Some rq1"
    by (simp_all add: demo_bridge_fields rq0_def rq1_def)
  have t0: "b_timeout demo_bridge < 9000 - r_time rq0"
    and t1: "\<not> b_timeout demo_bridge < 9000 - r_time rq1"
    and e0: "onerror rq0 = Some 11"
    by (simp_all add: demo_bridge_fields rq0_def rq1_def)
  note x = C5_timeout_sweep [OF d r0, of 9000 toy_lib "[]" "[]" 9000, THEN conjunct1, rule_format, OF t0]
  note y = C5_timeout_sweep [OF d r1, of 9000 toy_lib "[]" "[]" 9000, THEN conjunct2, rule_format, OF t1]
  from x have a1: "map_of (requests (fst (onTimerTick toy_lib [] [] 9000 9000 demo_bridge))) 0 = None"
    by (rule conjunct1)
  from x [THEN conjunct2, THEN conjunct1, rule_format, OF e0]
  have a2: "filter (request_event 0) (snd (onTimerTick toy_lib [] [] 9000 9000 demo_bridge))
       = [RequestError 0 11 \<lparr>code = 504, rdata = Some (JStr ''Gateway Timeout'')\<rparr>]" .
  from y have b1: "map_of (requests (fst (onTimerTick toy_lib [] [] 9000 9000 demo_bridge))) 1 = Some rq1"
    by (rule conjunct1)
  from y have b2: "filter (request_event 1) (snd (onTimerTick toy_lib [] [] 9000 9000 demo_bridge)) = []"
    by (rule conjunct2)
  from t0 t1 have t0': "b_timeout demo_bridge < 9000 - 0" and t1': "\<not> b_timeout demo_bridge < 9000 - 5000"
    by (simp_all add: rq0_def rq1_def)
  from d r0 t0' a1 a2 r1 t1' b1 b2 show ?thesis
    unfolding rq0_def rq1_def by (intro conjI)
qed

section \<open>Bridge client: requests while disconnected\<close>

lemma request_disconnected:
  assumes "\<not> isConnected b"
  shows "snd (request L salt iv now r m ok err b) = []"
    and "ok \<noteq> None \<or> err \<noteq> None \<Longrightarrow>
           map_of (requests (fst (request L salt iv now r m ok err b))) (reqIdInc b)
             = Some \<lparr>r_time = now, onsuccess = ok, onerror = err\<rparr>"
    and "ok = None \<and> err = None \<Longrightarrow>
           requests (fst (request L salt iv now r m ok err b)) = requests b"
  using assms
  by (auto simp add: request_def Let_def sendPackData_def isConnected_def update_conv')

lemma request_keeps:
  "b_timeout (fst (request L salt iv now r m ok err b)) = b_timeout b"
  "distinct (map fst (requests b)) \<Longrightarrow>
     distinct (map fst (requests (fst (request L salt iv now r m ok err b))))"
  by (auto simp add: request_def Let_def distinct_update)

text \<open>
  Claim C7. When \<open>request\<close> is called while the client is not connected, it sends no
  frame and invokes no callback. If a success or an error callback was given, the
  request is pending afterwards under the request id, with the time of the call; a
  later tick whose time exceeds that time by more than the timeout removes the entry
  and completes it with the response 504 (the error callback is called once with it, if
  there is one), while a tick before that leaves it pending. Without any callback
  nothing is registered.
\<close>

theorem C7_request_while_disconnected:
  assumes "\<not> isConnected b" and "distinct (map fst (requests b))"
  shows "snd (request L salt iv now r m ok err b) = [] \<and>
         (ok = None \<and> err = None \<longrightarrow>
            requests (fst (request L salt iv now r m ok err b)) = requests b) \<and>
         (ok \<noteq> None \<or> err \<noteq> None \<longrightarrow>
            map_of (requests (fst (request L salt iv now r m ok err b))) (reqIdInc b)
              = Some \<lparr>r_time = now, onsuccess = ok, onerror = err\<rparr> \<and>
            (\<forall>now'. b_timeout b < now' - now \<longrightarrow>
               map_of (requests (fst (onTimerTick L' salt' iv' now' now2
                                        (fst (request L salt iv now r m ok err b))))) (reqIdInc b)
                 = None \<and>
               filter (request_event (reqIdInc b))
                      (snd (onTimerTick L' salt' iv' now' now2
                              (fst (request L salt iv now r m ok err b))))
                 = (case err of
                      None \<Rightarrow> []
                    | Some cb \<Rightarrow> [RequestError (reqIdInc b) cb
                                    \<lparr>code = 504, rdata = Some (JStr ''Gateway Timeout'')\<rparr>])) \<and>
            (\<forall>now'. \<not> b_timeout b < now' - now \<longrightarrow>
               map_of (requests (fst (onTimerTick L' salt' iv' now' now2
                                        (fst (request L salt iv now r m ok err b))))) (reqIdInc b)
                 = Some \<lparr>r_time = now, onsuccess = ok, onerror = err\<rparr>))"
proof (intro conjI impI allI)
  show "snd (request L salt iv now r m ok err b) = []"
    using assms(1) by (rule request_disconnected(1))
next
  assume "ok = None \<and> err = None"
  with assms(1) show "requests (fst (request L salt iv now r m ok err b)) = requests b"
    by (rule request_disconnected(3))
next
  assume cb: "ok \<noteq> None \<or> err \<noteq> None"
  with assms(1) show "map_of (requests (fst (request L salt iv now r m ok err b))) (reqIdInc b)
              = Some \<lparr>r_time = now, onsuccess = ok, onerror = err\<rparr>"
    by (rule request_disconnected(2))
next
  fix now'
  assume cb: "ok \<noteq> None \<or> err \<noteq> None" and late: "b_timeout b < now' - now"
  let ?b = "fst (request L salt iv now r m ok err b)"
  let ?rq = "\<lparr>r_time = now, onsuccess = ok, onerror = err\<rparr>"
  from assms(2) have d: "distinct (map fst (requests ?b))"
    by (rule request_keeps(2))
  from assms(1) cb have p: "map_of (requests ?b) (reqIdInc b) = Some ?rq"
    by (rule request_disconnected(2))
  from late have l: "b_timeout ?b < now' - r_time ?rq"
    by (simp add: request_keeps(1))
  from tick_sweep_expired(1) [OF d p l]
  show "map_of (requests (fst (onTimerTick L' salt' iv' now' now2 ?b))) (reqIdInc b) = None" .
  from tick_sweep_expired(2) [OF d p l, of L' salt' iv' now2]
  show "filter (request_event (reqIdInc b)) (snd (onTimerTick L' salt' iv' now' now2 ?b))
          = (case err of
               None \<Rightarrow> []
             | Some cb \<Rightarrow> [RequestError (reqIdInc b) cb
                             \<lparr>code = 504, rdata = Some (JStr ''Gateway Timeout'')\<rparr>])"
    by (simp add: callError_504)
next
  fix now'
  assume cb: "ok \<noteq> None \<or> err \<noteq> None" and early: "\<not> b_timeout b < now' - now"
  let ?b = "fst (request L salt iv now r m ok err b)"
  let ?rq = "\<lparr>r_time = now, onsuccess = ok, onerror = err\<rparr>"
  from assms(2) have d: "distinct (map fst (requests ?b))"
    by (rule request_keeps(2))
  from assms(1) cb have p: "map_of (requests ?b) (reqIdInc b) = Some ?rq"
    by (rule request_disconnected(2))
  from early have l: "\<not> b_timeout ?b < now' - r_time ?rq"
    by (simp add: request_keeps(1))
  from tick_sweep_pending(1) [OF d p l]
  show "map_of (requests (fst (onTimerTick L' salt' iv' now' now2 ?b))) (reqIdInc b) = Some ?rq" .
qed

lemma idle_bridge_fields:
  "\<not> isConnected idle_bridge"
  "requests idle_bridge = []"
  "reqIdInc idle_bridge = 0"
  "b_timeout idle_bridge = 8000"
  by (simp_all add: idle_bridge_def new_bridge_def isConnected_def)

theorem C7_request_while_disconnected_witness:
  "\<not> isConnected idle_bridge \<and> distinct (map fst (requests idle_bridge)) \<and>
   snd (request toy_lib [] [] 100 ''echo'' (Some (JStr ''hi'')) (Some 5) (Some 6) idle_bridge) = [] \<and>
   map_of (requests (fst (request toy_lib [] [] 100 ''echo'' (Some (JStr ''hi'')) (Some 5) (Some 6)
                            idle_bridge))) 0
     = Some \<lparr>r_time = 100, onsuccess = Some 5, onerror = Some 6\<rparr> \<and>
   b_timeout idle_bridge < 8200 - 100 \<and>
   map_of (requests (fst (onTimerTick toy_lib [] [] 8200 8200
       (fst (request toy_lib [] [] 100 ''echo'' (Some (JStr ''hi'')) (Some 5) (Some 6)
               idle_bridge))))) 0 = None \<and>
   filter (request_event 0) (snd (onTimerTick toy_lib [] [] 8200 8200
       (fst (request toy_lib [] [] 100 ''echo'' (Some (JStr ''hi'')) (Some 5) (Some 6)
               idle_bridge))))
     = [RequestError 0 6 \<lparr>code = 504, rdata = Some (JStr ''Gateway Timeout'')\<rparr>]"
proof -
  have d: "distinct (map fst (requests idle_bridge))"
    by (simp add: idle_bridge_fields)
  have cb: "Some (5 :: nat) \<noteq> None \<or> Some (6 :: nat) \<noteq> None"
    by simp
  have late: "b_timeout idle_bridge < 8200 - 100"
    by (simp add: idle_bridge_fields)
  note t = C7_request_while_disconnected [OF idle_bridge_fields(1) d,
    of toy_lib "[]" "[]" 100 "''echo''" "Some (JStr ''hi'')" "Some 5" "Some 6" toy_lib "[]" "[]" 8200]
  from t have a: "snd (request toy_lib [] [] 100 ''echo'' (Some (JStr ''hi'')) (Some 5) (Some 6)
                         idle_bridge) = []"
    by (rule conjunct1)
  note u = t [THEN conjunct2, THEN conjunct2, rule_format, OF cb]
  from u have b: "map_of (requests (fst (request toy_lib [] [] 100 ''echo'' (Some (JStr ''hi''))
                            (Some 5) (Some 6) idle_bridge))) (reqIdInc idle_bridge)
                    = Some \<lparr>r_time = 100, onsuccess = Some 5, onerror = Some 6\<rparr>"
    by (rule conjunct1)
  note v = u [THEN conjunct2, THEN conjunct1, rule_format, OF late]
  from v have c: "map_of (requests (fst (onTimerTick toy_lib [] [] 8200 8200
       (fst (request toy_lib [] [] 100 ''echo'' (Some (JStr ''hi'')) (Some 5) (Some 6)
               idle_bridge))))) (reqIdInc idle_bridge) = None"
    by (rule conjunct1)
  from v have e: "filter (request_event (reqIdInc idle_bridge)) (snd (onTimerTick toy_lib [] [] 8200 8200
       (fst (request toy_lib [] [] 100 ''echo'' (Some (JStr ''hi'')) (Some 5) (Some 6)
               idle_bridge))))
     = (case Some (6 :: nat) of None \<Rightarrow> []
        | Some cb \<Rightarrow> [RequestError (reqIdInc idle_bridge) cb
                        \<lparr>code = 504, rdata = Some (JStr ''Gateway Timeout'')\<rparr>])"
    by (rule conjunct2)
  from idle_bridge_fields(1) d a b late c e show ?thesis
    by (simp add: idle_bridge_fields(3))
qed

end
